theory Spec2Isabelle
  imports Main
begin

section \<open>Errors and results of Go functions\<close>

text \<open>
  Go errors are values.  \<open>Errorf msg err\<close> stands for
  \<^verbatim>\<open>fmt.Errorf("msg: %w", err)\<close>; the wrapped error may be \<open>nil\<close>
  (\<open>None\<close>), as the formatting verb accepts it.  A function that may panic returns a
  \<open>go_result\<close>: \<open>Panics\<close> is the run-time panic that unwinds the caller.
\<close>

datatype error =
    ErrorNew string
  | Errorf string "error option"
  | MultiError "error list"
  | DataNotFound string
  | ContextCanceled
  | ContextDeadlineExceeded

datatype 'a go_result = Returns 'a | Panics

section \<open>Dynamically typed cluster objects\<close>

text \<open>
  The content of an \<^verbatim>\<open>unstructured.Unstructured\<close> object: JSON values, with a Go
  \<^verbatim>\<open>map[string]interface{}\<close> as an association list read by \<open>map_of\<close> and the
  \<open>nil\<close> interface value as \<open>JNull\<close>.
\<close>

datatype json =
    JNull
  | JBool bool
  | JNumber int
  | JString string
  | JSlice "json list"
  | JMap "(string \<times> json) list"

text \<open>
  The accessors of \<^verbatim>\<open>k8s.io/apimachinery/pkg/apis/meta/v1/unstructured\<close> that the
  source calls.  Each returns (value, found, err): a missing field is \<open>found = False\<close>
  without error, a field of the wrong type is an error.
\<close>

fun NestedFieldNoCopy :: "json \<Rightarrow> string list \<Rightarrow> json \<times> bool \<times> error option" where
  "NestedFieldNoCopy val [] = (val, True, None)"
| "NestedFieldNoCopy val (field # fields) =
     (case val of
        JNull \<Rightarrow> (JNull, False, None)
      | JMap m \<Rightarrow>
          (case map_of m field of
             None \<Rightarrow> (JNull, False, None)
           | Some v \<Rightarrow> NestedFieldNoCopy v fields)
      | _ \<Rightarrow> (JNull, False, Some (ErrorNew ''accessor error'')))"

definition NestedMap :: "json \<Rightarrow> string list \<Rightarrow> (string \<times> json) list \<times> bool \<times> error option" where
  "NestedMap obj fields =
     (case NestedFieldNoCopy obj fields of
        (val, found, err) \<Rightarrow>
          if \<not> found \<or> err \<noteq> None then ([], found, err)
          else (case val of
                  JMap m \<Rightarrow> (m, True, None)
                | _ \<Rightarrow> ([], False, Some (ErrorNew ''accessor error''))))"

definition NestedSlice :: "json \<Rightarrow> string list \<Rightarrow> json list \<times> bool \<times> error option" where
  "NestedSlice obj fields =
     (case NestedFieldNoCopy obj fields of
        (val, found, err) \<Rightarrow>
          if \<not> found \<or> err \<noteq> None then ([], found, err)
          else (case val of
                  JSlice xs \<Rightarrow> (xs, True, None)
                | _ \<Rightarrow> ([], False, Some (ErrorNew ''accessor error''))))"

definition NestedString :: "json \<Rightarrow> string list \<Rightarrow> string \<times> bool \<times> error option" where
  "NestedString obj fields =
     (case NestedFieldNoCopy obj fields of
        (val, found, err) \<Rightarrow>
          if \<not> found \<or> err \<noteq> None then ([], found, err)
          else (case val of
                  JString s \<Rightarrow> (s, True, None)
                | _ \<Rightarrow> ([], False, Some (ErrorNew ''accessor error''))))"

record GroupVersionKind =
  Group :: string
  Version :: string
  Kind :: string

text \<open>
  The kind of object a read asks for.  \<^verbatim>\<open>gvk.ServiceMeshControlPlane\<close> is declared in
  package \<^verbatim>\<open>pkg/cluster/gvk\<close>; it is kept symbolic.
\<close>

datatype ObjectKind =
    KindOf GroupVersionKind
  | gvk_ServiceMeshControlPlane

record ObjectKey =
  key_Namespace :: string
  key_Name :: string

text \<open>
  \<^verbatim>\<open>client.Client.Get\<close> for unstructured objects: the object's content, or the error of
  the read (not found, no connection, ...).
\<close>

type_synonym Client = "ObjectKind \<Rightarrow> ObjectKey \<Rightarrow> error + json"

section \<open>pkg/feature/servicemesh: control-plane component readiness\<close>

text \<open>
  The forced type assertion \<^verbatim>\<open>v.([]interface{})\<close> on the value read from a map: it
  panics unless the value is a slice; a missing key reads as the \<open>nil\<close> interface
  value and panics as well.
\<close>

definition assertSlice :: "json option \<Rightarrow> json list go_result" where
  "assertSlice v = (case v of Some (JSlice xs) \<Rightarrow> Returns xs | _ \<Rightarrow> Panics)"

definition CheckControlPlaneComponentReadiness ::
  "Client \<Rightarrow> string \<Rightarrow> string \<Rightarrow> (bool \<times> error option) go_result" where
  "CheckControlPlaneComponentReadiness c smcpName smcpNs =
     (case c gvk_ServiceMeshControlPlane \<lparr>key_Namespace = smcpNs, key_Name = smcpName\<rparr> of
        Inl err \<Rightarrow>
          Returns (False, Some (Errorf ''failed to find Service Mesh Control Plane'' (Some err)))
      | Inr smcpObj \<Rightarrow>
          (case NestedMap smcpObj [''status'', ''readiness'', ''components''] of
             (components, found, err) \<Rightarrow>
               if err \<noteq> None \<or> \<not> found then
                 Returns (False, Some (Errorf
                   ''status conditions not found or error in parsing of Service Mesh Control Plane'' err))
               else
                 (case assertSlice (map_of components ''ready'') of
                    Panics \<Rightarrow> Panics
                  | Returns ready \<Rightarrow>
                 (case assertSlice (map_of components ''pending'') of
                    Panics \<Rightarrow> Panics
                  | Returns pending \<Rightarrow>
                 (case assertSlice (map_of components ''unready'') of
                    Panics \<Rightarrow> Panics
                  | Returns unready \<Rightarrow>
                      Returns (length pending = 0 \<and> length unready = 0 \<and> length ready > 0,
                               None))))))"

section \<open>pkg/feature/servicemesh: the readiness polls\<close>

text \<open>
  Time is a logical clock in nanoseconds, as \<^verbatim>\<open>time.Duration\<close> counts it.
\<close>

definition Second :: nat where
  "Second = 1000000000"

definition Minute :: nat where
  "Minute = 60 * Second"

definition interval :: nat where
  "interval = 2 * Second"

definition duration :: nat where
  "duration = 5 * Minute"

text \<open>
  A \<^verbatim>\<open>context.Context\<close> is the time at which it is done together with the error it
  reports from then on, or \<open>None\<close> when it is never done.
  \<^verbatim>\<open>context.WithTimeout\<close> at time \<open>now\<close> is done at the deadline with
  \<^verbatim>\<open>DeadlineExceeded\<close>, unless the parent is done by then.
\<close>

type_synonym Context = "(nat \<times> error) option"

definition WithTimeout :: "Context \<Rightarrow> nat \<Rightarrow> nat \<Rightarrow> nat \<times> error" where
  "WithTimeout parent timeout now =
     (case parent of
        None \<Rightarrow> (now + timeout, ContextDeadlineExceeded)
      | Some (t, e) \<Rightarrow>
          if t \<le> now + timeout then (t, e) else (now + timeout, ContextDeadlineExceeded))"

text \<open>
  Modelled from the spec: the readiness poller \<open>pollUntilReady(ctx, interval, timeout,
  check)\<close> of section 4.5, which the source reaches as
  \<^verbatim>\<open>wait.PollUntilContextTimeout\<close> (package \<^verbatim>\<open>k8s.io/apimachinery/pkg/util/wait\<close>,
  not under src/).  The loop waits for the next tick of the interval timer or for the
  context, whichever comes first; a context that is done wins over a tick at the same
  instant.  At a tick it runs the check at that time (the check itself takes no time on
  this clock): an error of the check or a ready report ends the poll with that error
  (\<open>nil\<close> for ready), a panic of the check unwinds the poll.  The result carries the
  times at which the check was invoked.  A loop that never returns has the value
  \<open>None\<close>.
\<close>

type_synonym Condition_Func = "nat \<Rightarrow> (bool \<times> error option) go_result"

partial_function (option) loopConditionUntilContext ::
  "nat \<times> error \<Rightarrow> nat \<Rightarrow> Condition_Func \<Rightarrow> nat \<Rightarrow> nat list
     \<Rightarrow> (error option go_result \<times> nat list) option" where
  "loopConditionUntilContext ctx ivl condition now calls =
     (let tick = now + ivl in
      if fst ctx \<le> tick then Some (Returns (Some (snd ctx)), calls)
      else
        (case condition tick of
           Panics \<Rightarrow> Some (Panics, calls @ [tick])
         | Returns r \<Rightarrow>
             if snd r \<noteq> None \<or> fst r then Some (Returns (snd r), calls @ [tick])
             else loopConditionUntilContext ctx ivl condition tick (calls @ [tick])))"

definition PollUntilContextTimeout ::
  "Context \<Rightarrow> nat \<Rightarrow> nat \<Rightarrow> bool \<Rightarrow> Condition_Func \<Rightarrow> nat
     \<Rightarrow> (error option go_result \<times> nat list) option" where
  "PollUntilContextTimeout ctx ivl timeout immediate condition now =
     (let deadlineCtx = WithTimeout ctx timeout now in
      if immediate then
        (case condition now of
           Panics \<Rightarrow> Some (Panics, [now])
         | Returns r \<Rightarrow>
             if snd r \<noteq> None \<or> fst r then Some (Returns (snd r), [now])
             else loopConditionUntilContext deadlineCtx ivl condition now [now])
      else loopConditionUntilContext deadlineCtx ivl condition now [])"

section \<open>Features and their data\<close>

record ControlPlaneSpec =
  cp_Name :: string
  cp_Namespace :: string
  MetricsCollection :: string

text \<open>\<open>Audiences\<close> is a pointer to a slice in the source: \<open>None\<close> is the nil pointer.\<close>

record AuthorizationData =
  Audiences :: "string list option"
  ProviderName :: string
  AuthConfigSelector :: string
  auth_Namespace :: string

text \<open>
  The typed data bag of a feature: one entry per logical dependency, absent until a
  data provider has populated it.
\<close>

record FeatureData =
  ControlPlane :: "ControlPlaneSpec option"
  Authorization :: "AuthorizationData option"

record OwnerReference =
  owner_Kind :: string
  owner_Name :: string

datatype SourceType = DSCIType | ComponentType

record Source =
  source_Type :: SourceType
  source_Name :: string

text \<open>
  An action of a feature (precondition, postcondition, resource producer, clean-up): it
  acts on the cluster \<open>'c\<close> and returns an error or \<open>nil\<close>.  The source's
  \<^verbatim>\<open>func(ctx, f *Feature) error\<close> is taken with its feature already supplied.
\<close>

type_synonym 'c Action = "'c \<Rightarrow> error option \<times> 'c"

record Manifest =
  Location :: string
  Include :: "string list"

record 'c Feature =
  feat_Name :: string
  TargetNamespace :: string
  Manifests :: "Manifest list"
  data :: FeatureData
  preconditions :: "'c Action list"
  postconditions :: "'c Action list"
  resourceProducers :: "'c Action list"
  EnabledWhen :: "('c \<Rightarrow> bool) option"
  OnDelete :: "'c Action list"
  owner :: "OwnerReference option"
  source :: Source
  appNamespace :: string

text \<open>
  Modelled from the spec: \<^verbatim>\<open>FeatureData.ControlPlane.Extract\<close> and
  \<^verbatim>\<open>FeatureData.Authorization.Extract\<close> (package \<^verbatim>\<open>pkg/feature\<close>, not under
  src/).  Section 4.1: requesting a data key that was never populated is the failure
  \<open>DataNotFound\<close>.
\<close>

definition Extract_ControlPlane :: "('c, 'z) Feature_scheme \<Rightarrow> error + ControlPlaneSpec" where
  "Extract_ControlPlane f =
     (case ControlPlane (data f) of
        None \<Rightarrow> Inl (DataNotFound ''ControlPlane'')
      | Some v \<Rightarrow> Inr v)"

definition Extract_Authorization :: "('c, 'z) Feature_scheme \<Rightarrow> error + AuthorizationData" where
  "Extract_Authorization f =
     (case Authorization (data f) of
        None \<Rightarrow> Inl (DataNotFound ''Authorization'')
      | Some v \<Rightarrow> Inr v)"

section \<open>The packages the source calls\<close>

datatype MetaOptions =
    OwnedBy "OwnerReference option"
  | WithOwnerReference OwnerReference
  | WithLabels string string

record ConfigMap =
  cm_Name :: string
  cm_Namespace :: string
  cm_Data :: "string \<rightharpoonup> string"

record PolicyRule =
  APIGroups :: "string list"
  Resources :: "string list"
  Verbs :: "string list"

record Subject =
  subject_Kind :: string
  subject_Name :: string
  subject_Namespace :: string

record RoleRef =
  ref_APIGroup :: string
  ref_Kind :: string
  ref_Name :: string

text \<open>
  Package \<^verbatim>\<open>pkg/cluster\<close>, the constants of package \<^verbatim>\<open>servicemesh\<close> and the
  manifest resolver are not under src/: the functions of the source take them as the
  parameter \<open>env\<close>.  A cluster write acts on the cluster \<open>'c\<close>; the objects
  the writes return are discarded by every caller in the source and are left out.
\<close>

record 'c Env =
  ConfigMapMeshRef :: string
  ConfigMapAuthRef :: string
  CreateOrUpdateConfigMap :: "ConfigMap \<Rightarrow> MetaOptions list \<Rightarrow> 'c Action"
  CreateOrUpdateClusterRole :: "string \<Rightarrow> PolicyRule list \<Rightarrow> MetaOptions list \<Rightarrow> 'c Action"
  CreateOrUpdateClusterRoleBinding ::
    "string \<Rightarrow> Subject list \<Rightarrow> RoleRef \<Rightarrow> MetaOptions list \<Rightarrow> 'c Action"
  GetOperatorNamespace :: "error + string"
  SubscriptionExists :: "string \<Rightarrow> 'c \<Rightarrow> error + bool"
  ApplyManifest :: "Manifest \<Rightarrow> FeatureData \<Rightarrow> OwnerReference option \<Rightarrow> 'c Action"

section \<open>pkg/feature/servicemesh: the config map side-channel\<close>

fun strings_Join :: "string list \<Rightarrow> string \<Rightarrow> string" where
  "strings_Join [] sep = []"
| "strings_Join [x] sep = x"
| "strings_Join (x # y # ys) sep = x @ sep @ strings_Join (y # ys) sep"

definition MeshRefs :: "('c, 'e) Env_scheme \<Rightarrow> ('c, 'z) Feature_scheme \<Rightarrow> 'c Action" where
  "MeshRefs env f c =
     (case Extract_ControlPlane f of
        Inl err \<Rightarrow> (Some (Errorf ''failed to get control plane struct'' (Some err)), c)
      | Inr meshConfig \<Rightarrow>
          (let namespace = TargetNamespace f;
               data = [''CONTROL_PLANE_NAME'' \<mapsto> cp_Name meshConfig,
                       ''MESH_NAMESPACE'' \<mapsto> cp_Namespace meshConfig]
           in CreateOrUpdateConfigMap env
                \<lparr>cm_Name = ConfigMapMeshRef env, cm_Namespace = namespace, cm_Data = data\<rparr>
                [OwnedBy (owner f)] c))"

definition AuthRefs :: "('c, 'e) Env_scheme \<Rightarrow> ('c, 'z) Feature_scheme \<Rightarrow> 'c Action" where
  "AuthRefs env f c =
     (let targetNamespace = TargetNamespace f in
      case Extract_Authorization f of
        Inl err \<Rightarrow> (Some (Errorf ''could not get auth from feature'' (Some err)), c)
      | Inr auth \<Rightarrow>
          (let audiences = Audiences auth;
               audiencesList =
                 (case audiences of
                    None \<Rightarrow> []
                  | Some as \<Rightarrow> if length as > 0 then strings_Join as '','' else []);
               data = [''AUTH_AUDIENCE'' \<mapsto> audiencesList,
                       ''AUTH_PROVIDER'' \<mapsto> ProviderName auth,
                       ''AUTHORINO_LABEL'' \<mapsto> AuthConfigSelector auth]
           in CreateOrUpdateConfigMap env
                \<lparr>cm_Name = ConfigMapAuthRef env, cm_Namespace = targetNamespace, cm_Data = data\<rparr>
                [OwnedBy (owner f)] c))"

section \<open>pkg/feature/servicemesh: waiting for the mesh\<close>

text \<open>
  The cluster changes while a poll waits: \<open>clientAt t\<close> is the client's view of it
  at time \<open>t\<close>.
\<close>

definition WaitForControlPlaneToBeReady ::
  "(nat \<Rightarrow> Client) \<Rightarrow> Context \<Rightarrow> ('c, 'z) Feature_scheme \<Rightarrow> nat
     \<Rightarrow> (error option go_result \<times> nat list) option" where
  "WaitForControlPlaneToBeReady clientAt ctx f now =
     (case Extract_ControlPlane f of
        Inl err \<Rightarrow> Some (Returns (Some err), [])
      | Inr controlPlane \<Rightarrow>
          (let smcp = cp_Name controlPlane;
               smcpNs = cp_Namespace controlPlane
           in PollUntilContextTimeout ctx interval duration False
                (\<lambda>t. CheckControlPlaneComponentReadiness (clientAt t) smcp smcpNs) now))"

fun conditionsReady :: "json list \<Rightarrow> bool" where
  "conditionsReady [] = False"
| "conditionsReady (condition # conditions) =
     (case condition of
        JMap cond \<Rightarrow>
          (let conType = fst (NestedString (JMap cond) [''type'']);
               conStatus = fst (NestedString (JMap cond) [''status''])
           in if conType = ''Ready'' \<and> conStatus = ''True'' then True
              else conditionsReady conditions)
      | _ \<Rightarrow> conditionsReady conditions)"

definition serviceMeshMemberCheck :: "Client \<Rightarrow> string \<Rightarrow> (bool \<times> error option) go_result" where
  "serviceMeshMemberCheck c namespace =
     (let gvk = \<lparr>Group = [], Version = ''maistra.io/v1'', Kind = ''ServiceMeshMember''\<rparr> in
      case c (KindOf gvk) \<lparr>key_Namespace = namespace, key_Name = ''default''\<rparr> of
        Inl err \<Rightarrow> Returns (False, Some err)
      | Inr smm \<Rightarrow>
          (case NestedSlice smm [''status'', ''conditions''] of
             (conditions, found, err) \<Rightarrow>
               if err \<noteq> None then Returns (False, err)
               else if \<not> found then Returns (False, None)
               else Returns (conditionsReady conditions, None)))"

definition WaitForServiceMeshMember ::
  "string \<Rightarrow> (nat \<Rightarrow> Client) \<Rightarrow> Context \<Rightarrow> nat
     \<Rightarrow> (error option go_result \<times> nat list) option" where
  "WaitForServiceMeshMember namespace clientAt ctx now =
     PollUntilContextTimeout ctx interval duration False
       (\<lambda>t. serviceMeshMemberCheck (clientAt t) namespace) now"

section \<open>platform/capabilities: RBAC for platform controllers\<close>

record ObjectReference =
  ref_GroupVersionKind :: GroupVersionKind
  ref_Resources :: string

text \<open>The loop of \<^verbatim>\<open>createPolicyRules\<close>, appending to both slices at each reference.\<close>

fun createPolicyRules_loop ::
  "ObjectReference list \<Rightarrow> string list \<Rightarrow> string list \<Rightarrow> string list \<times> string list" where
  "createPolicyRules_loop [] apiGroups resources = (apiGroups, resources)"
| "createPolicyRules_loop (ref # refs) apiGroups resources =
     createPolicyRules_loop refs
       (apiGroups @ [Group (ref_GroupVersionKind ref)])
       (resources @ [ref_Resources ref])"

definition createPolicyRules :: "ObjectReference list \<Rightarrow> PolicyRule list" where
  "createPolicyRules objectReferences =
     (case createPolicyRules_loop objectReferences [] [] of
        (apiGroups, resources) \<Rightarrow>
          [\<lparr>APIGroups = apiGroups,
            Resources = resources,
            Verbs = [''get'', ''list'', ''watch'', ''update'', ''patch'']\<rparr>])"

definition createPlatformRoleBinding :: "string \<Rightarrow> string \<Rightarrow> Subject list \<times> RoleRef" where
  "createPlatformRoleBinding roleName namespace =
     ([\<lparr>subject_Kind = ''ServiceAccount'',
        subject_Name = ''opendatahub-operator-controller-manager'',
        subject_Namespace = namespace\<rparr>],
      \<lparr>ref_APIGroup = ''rbac.authorization.k8s.io'',
       ref_Kind = ''ClusterRole'',
       ref_Name = roleName\<rparr>)"

definition CreateOrUpdatePlatformRBAC ::
  "('c, 'e) Env_scheme \<Rightarrow> string \<Rightarrow> ObjectReference list \<Rightarrow> MetaOptions list \<Rightarrow> 'c Action" where
  "CreateOrUpdatePlatformRBAC env roleName objectReferences metaOptions c =
     (case CreateOrUpdateClusterRole env roleName (createPolicyRules objectReferences)
             metaOptions c of
        (Some err, c1) \<Rightarrow> (Some (Errorf ''failed creating cluster role'' (Some err)), c1)
      | (None, c1) \<Rightarrow>
          (case GetOperatorNamespace env of
             Inl errNS \<Rightarrow> (Some (Errorf ''failed getting operator namespace'' (Some errNS)), c1)
           | Inr namespace \<Rightarrow>
               (case createPlatformRoleBinding roleName namespace of
                  (subjects, roleRef) \<Rightarrow>
                    (case CreateOrUpdateClusterRoleBinding env roleName subjects roleRef
                            metaOptions c1 of
                       (Some err, c2) \<Rightarrow>
                         (Some (Errorf ''failed creating cluster role binding'' (Some err)), c2)
                     | (None, c2) \<Rightarrow> (None, c2)))))"

section \<open>The feature engine\<close>

text \<open>
  Package \<^verbatim>\<open>pkg/feature\<close> is not under src/ (its integration tests are).  This
  section models it from the specification, sections 3 and 4.
\<close>

datatype ConditionType =
    ConditionAvailable
  | ConditionProgressing
  | ConditionDegraded
  | CapabilityServiceMesh
  | CapabilityServiceMeshAuthorization

datatype ConditionStatus = ConditionTrue | ConditionFalse | ConditionUnknown

datatype ConditionReason =
    FeatureCreated
  | PreConditions
  | PostConditions
  | ConfiguredReason
  | RemovedReason
  | MissingOperatorReason

record Condition =
  cond_Type :: ConditionType
  cond_Status :: ConditionStatus
  cond_Reason :: ConditionReason
  cond_Message :: string

datatype Phase = PhaseProgressing | PhaseReady | PhaseError

record FeatureTracker =
  tracker_Source :: Source
  tracker_AppNamespace :: string
  tracker_Phase :: Phase
  tracker_Conditions :: "Condition list"
  OwnerReferences :: "OwnerReference list"

text \<open>
  The cluster as the engine sees it: the resources that features create (\<open>'r\<close>),
  the persisted trackers keyed by (namespace, name), and the condition list of the
  owner object.
\<close>

record 'r Cluster =
  resources :: 'r
  trackers :: "string \<times> string \<rightharpoonup> FeatureTracker"
  ownerConditions :: "Condition list"

text \<open>
  Modelled from the spec: the conditions of a tracker or an owner are an ordered set
  keyed by type (section 3), so writing a condition replaces the condition of the same
  type, or appends it.
\<close>

fun SetStatusCondition :: "Condition list \<Rightarrow> Condition \<Rightarrow> Condition list" where
  "SetStatusCondition [] new = [new]"
| "SetStatusCondition (c # cs) new =
     (if cond_Type c = cond_Type new then new # cs else c # SetStatusCondition cs new)"

text \<open>
  Modelled from the spec: a sequence of preconditions, postconditions or resource
  producers runs in order, and the first failure stops the run (section 4.1).
\<close>

fun runActions :: "'c Action list \<Rightarrow> 'c Action" where
  "runActions [] c = (None, c)"
| "runActions (a # as) c =
     (case a c of
        (Some e, c') \<Rightarrow> (Some e, c')
      | (None, c') \<Rightarrow> runActions as c')"

text \<open>
  Modelled from the spec: the upsert of a feature's tracker (section 4.1, step 6, and
  section 3).  The record is keyed by the feature's target namespace and name, carries
  the feature's source and application namespace, and is owned by the feature's declared
  owner.  \<open>failed = None\<close> records phase \<open>Ready\<close> with \<open>Available = True\<close>; a
  failed stage records phase \<open>Error\<close> with \<open>Degraded = True\<close> under the stage's
  reason, and \<open>Available\<close> is not \<open>True\<close>.
\<close>

definition trackerConditions :: "ConditionReason option \<Rightarrow> Condition list \<Rightarrow> Condition list" where
  "trackerConditions failed conds =
     (case failed of
        None \<Rightarrow>
          SetStatusCondition
            (SetStatusCondition conds
               \<lparr>cond_Type = ConditionAvailable, cond_Status = ConditionTrue,
                cond_Reason = FeatureCreated, cond_Message = ''feature applied''\<rparr>)
            \<lparr>cond_Type = ConditionDegraded, cond_Status = ConditionFalse,
             cond_Reason = FeatureCreated, cond_Message = ''feature applied''\<rparr>
      | Some reason \<Rightarrow>
          SetStatusCondition
            (SetStatusCondition conds
               \<lparr>cond_Type = ConditionAvailable, cond_Status = ConditionFalse,
                cond_Reason = reason, cond_Message = ''feature failed''\<rparr>)
            \<lparr>cond_Type = ConditionDegraded, cond_Status = ConditionTrue,
             cond_Reason = reason, cond_Message = ''feature failed''\<rparr>)"

definition upsertTracker ::
  "('r Cluster, 'z) Feature_scheme \<Rightarrow> ConditionReason option \<Rightarrow> 'r Cluster \<Rightarrow> 'r Cluster" where
  "upsertTracker f failed c =
     (let key = (TargetNamespace f, feat_Name f);
          previous = (case trackers c key of None \<Rightarrow> [] | Some t \<Rightarrow> tracker_Conditions t)
      in c\<lparr>trackers := (trackers c)(key \<mapsto>
            \<lparr>tracker_Source = source f,
             tracker_AppNamespace = appNamespace f,
             tracker_Phase = (case failed of None \<Rightarrow> PhaseReady | Some _ \<Rightarrow> PhaseError),
             tracker_Conditions = trackerConditions failed previous,
             OwnerReferences = (case owner f of None \<Rightarrow> [] | Some ow \<Rightarrow> [ow])\<rparr>)\<rparr>)"

definition removeTracker :: "('r Cluster, 'z) Feature_scheme \<Rightarrow> 'r Cluster \<Rightarrow> 'r Cluster" where
  "removeTracker f c = c\<lparr>trackers := (trackers c)((TargetNamespace f, feat_Name f) := None)\<rparr>"

text \<open>
  Modelled from the spec: a feature-level error is wrapped with the feature's name and
  the failing stage (section 7).
\<close>

definition stageError :: "('c, 'z) Feature_scheme \<Rightarrow> string \<Rightarrow> error \<Rightarrow> error" where
  "stageError f stage e = Errorf (feat_Name f @ '': '' @ stage) (Some e)"

text \<open>
  Modelled from the spec: a feature is enabled unless its \<open>enabledWhen\<close> predicate
  is present and false (section 3).
\<close>

definition enabled_at :: "('c, 'z) Feature_scheme \<Rightarrow> 'c \<Rightarrow> bool" where
  "enabled_at f c = (case EnabledWhen f of None \<Rightarrow> True | Some enabled \<Rightarrow> enabled c)"

text \<open>
  Modelled from the spec: \<^verbatim>\<open>Feature.Apply\<close>, section 4.1.
  (1) A feature whose \<open>enabledWhen\<close> is present and false returns success without side
  effects and without a tracker.  (2) Preconditions run in order and stop at the first
  failure, which is recorded under reason \<open>PreConditions\<close>; nothing is applied.
  (3) The manifests are applied, tagged with the owner.  (4) The resource producers
  run.  (5) Postconditions run in order; a failure is recorded under reason
  \<open>PostConditions\<close> and nothing is rolled back.  (6) The tracker is upserted.
  The spec does not say what the tracker records when step 3 or 4 fails: the model
  returns the error and leaves the tracker as it is.
\<close>

definition Feature_Apply ::
  "('r Cluster, 'e) Env_scheme \<Rightarrow> ('r Cluster, 'z) Feature_scheme \<Rightarrow> 'r Cluster Action" where
  "Feature_Apply env f c =
     (if \<not> enabled_at f c then (None, c)
      else
        (case runActions (preconditions f) c of
           (Some e, c1) \<Rightarrow>
             (Some (stageError f ''preconditions'' e), upsertTracker f (Some PreConditions) c1)
         | (None, c1) \<Rightarrow>
        (case runActions (map (\<lambda>m. ApplyManifest env m (data f) (owner f)) (Manifests f)) c1 of
           (Some e, c2) \<Rightarrow> (Some (stageError f ''manifests'' e), c2)
         | (None, c2) \<Rightarrow>
        (case runActions (resourceProducers f) c2 of
           (Some e, c3) \<Rightarrow> (Some (stageError f ''resources'' e), c3)
         | (None, c3) \<Rightarrow>
        (case runActions (postconditions f) c3 of
           (Some e, c4) \<Rightarrow>
             (Some (stageError f ''postconditions'' e), upsertTracker f (Some PostConditions) c4)
         | (None, c4) \<Rightarrow> (None, upsertTracker f None c4))))))"

text \<open>
  Modelled from the spec: \<^verbatim>\<open>Feature.Delete\<close>, section 4.1: the clean-up actions
  run if there are any, the resources go with the owner, and the tracker is removed.
\<close>

definition Feature_Delete :: "('r Cluster, 'z) Feature_scheme \<Rightarrow> 'r Cluster Action" where
  "Feature_Delete f c =
     (case runActions (OnDelete f) c of
        (Some e, c1) \<Rightarrow> (Some (stageError f ''delete'' e), c1)
      | (None, c1) \<Rightarrow> (None, removeTracker f c1))"

text \<open>
  Modelled from the spec: \<^verbatim>\<open>FeaturesRegistry.Add\<close>, section 4.2.  The registry is the
  list of features in registration order.  A batch with an empty or duplicate name is
  refused as a whole, with an aggregate error naming every violation.
\<close>

definition registryViolations :: "'c Feature list \<Rightarrow> 'c Feature list \<Rightarrow> error list" where
  "registryViolations registry features =
     map (\<lambda>f. ErrorNew (''invalid feature name: '' @ feat_Name f))
       (filter (\<lambda>f. feat_Name f = []) features)
     @ map (\<lambda>f. ErrorNew (''duplicate feature: '' @ feat_Name f))
       (filter (\<lambda>f. 1 < length (filter (\<lambda>g. feat_Name g = feat_Name f) (registry @ features)))
          features)"

definition FeaturesRegistry_Add ::
  "'c Feature list \<Rightarrow> 'c Feature list \<Rightarrow> error + 'c Feature list" where
  "FeaturesRegistry_Add features registry =
     (let violations = registryViolations registry features
      in if violations = [] then Inr (registry @ features) else Inl (MultiError violations))"

text \<open>
  Modelled from the spec: a provider receives the registry (and reads the cluster to
  build feature data) and returns the registry after its registrations, or an error
  (section 4.2).
\<close>

type_synonym 'c FeaturesProvider = "'c \<Rightarrow> 'c Feature list \<Rightarrow> error + 'c Feature list"

record ServiceMeshSpec =
  ManagementState :: string
  sm_ControlPlane :: ControlPlaneSpec

record DSCInitializationSpec =
  ApplicationsNamespace :: string
  ServiceMesh :: "ServiceMeshSpec option"

record DSCInitialization =
  dsci_Name :: string
  Spec :: DSCInitializationSpec

text \<open>
  Modelled from the spec: the features handler, section 4.3, a closed variant of the
  handler bound to an owner and a provider, and the handler that does nothing.
\<close>

datatype 'c FeaturesHandler =
    ClusterFeaturesHandler DSCInitialization "'c FeaturesProvider"
  | EmptyFeaturesHandler

fun applyFeatures ::
  "('r Cluster, 'e) Env_scheme \<Rightarrow> 'r Cluster Feature list \<Rightarrow> 'r Cluster Action" where
  "applyFeatures env [] c = (None, c)"
| "applyFeatures env (f # fs) c =
     (case Feature_Apply env f c of
        (Some e, c') \<Rightarrow> (Some e, c')
      | (None, c') \<Rightarrow> applyFeatures env fs c')"

fun deleteFeatures :: "'r Cluster Feature list \<Rightarrow> 'r Cluster Action" where
  "deleteFeatures [] c = (None, c)"
| "deleteFeatures (f # fs) c =
     (case Feature_Delete f c of
        (Some e, c') \<Rightarrow> (Some e, c')
      | (None, c') \<Rightarrow> deleteFeatures fs c')"

definition FeaturesHandler_Apply ::
  "('r Cluster, 'e) Env_scheme \<Rightarrow> 'r Cluster FeaturesHandler \<Rightarrow> 'r Cluster Action" where
  "FeaturesHandler_Apply env h c =
     (case h of
        EmptyFeaturesHandler \<Rightarrow> (None, c)
      | ClusterFeaturesHandler ow provider \<Rightarrow>
          (case provider c [] of
             Inl e \<Rightarrow> (Some e, c)
           | Inr features \<Rightarrow> applyFeatures env features c))"

definition FeaturesHandler_Delete :: "'r Cluster FeaturesHandler \<Rightarrow> 'r Cluster Action" where
  "FeaturesHandler_Delete h c =
     (case h of
        EmptyFeaturesHandler \<Rightarrow> (None, c)
      | ClusterFeaturesHandler ow provider \<Rightarrow>
          (case provider c [] of
             Inl e \<Rightarrow> (Some e, c)
           | Inr features \<Rightarrow> deleteFeatures features c))"

text \<open>
  Modelled from the spec: the capability reporter and the handler with reporter,
  section 4.4.  Apply and Delete delegate to the wrapped handler; on success the initial
  condition is written into the owner's condition list, on failure it is written with
  its status set to \<open>False\<close>, and the handler's error is returned as it is.
\<close>

record 'c HandlerWithReporter =
  handler :: "'c FeaturesHandler"
  reporter :: Condition

definition createCapabilityReporter :: "DSCInitialization \<Rightarrow> Condition \<Rightarrow> Condition" where
  "createCapabilityReporter instance initialCondition = initialCondition"

definition NewHandlerWithReporter ::
  "'c FeaturesHandler \<Rightarrow> Condition \<Rightarrow> 'c HandlerWithReporter" where
  "NewHandlerWithReporter h r = \<lparr>handler = h, reporter = r\<rparr>"

definition ReportCondition :: "Condition \<Rightarrow> error option \<Rightarrow> 'r Cluster \<Rightarrow> 'r Cluster" where
  "ReportCondition initialCondition err c =
     c\<lparr>ownerConditions :=
         SetStatusCondition (ownerConditions c)
           (case err of
              None \<Rightarrow> initialCondition
            | Some e \<Rightarrow> initialCondition\<lparr>cond_Status := ConditionFalse\<rparr>)\<rparr>"

definition HandlerWithReporter_Apply ::
  "('r Cluster, 'e) Env_scheme \<Rightarrow> 'r Cluster HandlerWithReporter \<Rightarrow> 'r Cluster Action" where
  "HandlerWithReporter_Apply env h c =
     (case FeaturesHandler_Apply env (handler h) c of
        (applyErr, c') \<Rightarrow> (applyErr, ReportCondition (reporter h) applyErr c'))"

definition HandlerWithReporter_Delete ::
  "'r Cluster HandlerWithReporter \<Rightarrow> 'r Cluster Action" where
  "HandlerWithReporter_Delete h c =
     (case FeaturesHandler_Delete (handler h) c of
        (deleteErr, c') \<Rightarrow> (deleteErr, ReportCondition (reporter h) deleteErr c'))"

section \<open>controllers/dscinitialization: service mesh set-up\<close>

text \<open>
  The reconciler: its client is the cluster the functions act on.  The feature
  providers register the features of the two capabilities from templates and helpers
  that are not under src/, and the two condition constructors are declared elsewhere
  in the package; the reconciler carries them as fields.  Logging and event recording
  do not affect control flow and are left out.
\<close>

record 'c Reconciler = "'c Env" +
  serviceMeshCapabilityFeatures :: "DSCInitialization \<Rightarrow> 'c FeaturesProvider"
  authorizationFeatures :: "DSCInitialization \<Rightarrow> 'c FeaturesProvider"
  serviceMeshCondition :: "ConditionReason \<Rightarrow> string \<Rightarrow> Condition"
  authorizationCondition :: "ConditionReason \<Rightarrow> string \<Rightarrow> Condition"

definition serviceMeshCapability ::
  "('c, 'e) Reconciler_scheme \<Rightarrow> DSCInitialization \<Rightarrow> Condition \<Rightarrow> 'c HandlerWithReporter" where
  "serviceMeshCapability r instance initialCondition =
     NewHandlerWithReporter
       (ClusterFeaturesHandler instance (serviceMeshCapabilityFeatures r instance))
       (createCapabilityReporter instance initialCondition)"

definition authorizationCapability ::
  "('c, 'e) Reconciler_scheme \<Rightarrow> DSCInitialization \<Rightarrow> Condition \<Rightarrow> 'c
     \<Rightarrow> error + 'c HandlerWithReporter" where
  "authorizationCapability r instance condition c =
     (case SubscriptionExists r ''authorino-operator'' c of
        Inl err \<Rightarrow> Inl (Errorf ''failed to list subscriptions'' (Some err))
      | Inr authorinoInstalled \<Rightarrow>
          if \<not> authorinoInstalled then
            (let authzMissingOperatorCondition =
                   \<lparr>cond_Type = CapabilityServiceMeshAuthorization,
                    cond_Status = ConditionFalse,
                    cond_Reason = MissingOperatorReason,
                    cond_Message = ''Authorino operator is not installed on the cluster, skipping authorization capability''\<rparr>
             in Inr (NewHandlerWithReporter EmptyFeaturesHandler
                       (createCapabilityReporter instance authzMissingOperatorCondition)))
          else
            Inr (NewHandlerWithReporter
                   (ClusterFeaturesHandler instance (authorizationFeatures r instance))
                   (createCapabilityReporter instance condition)))"

text \<open>The loops over the capabilities: the first error is returned at once.\<close>

fun applyCapabilities ::
  "('r Cluster, 'e) Env_scheme \<Rightarrow> 'r Cluster HandlerWithReporter list \<Rightarrow> 'r Cluster Action" where
  "applyCapabilities env [] c = (None, c)"
| "applyCapabilities env (capability # capabilities) c =
     (case HandlerWithReporter_Apply env capability c of
        (Some capabilityErr, c') \<Rightarrow> (Some capabilityErr, c')
      | (None, c') \<Rightarrow> applyCapabilities env capabilities c')"

fun deleteCapabilities :: "'r Cluster HandlerWithReporter list \<Rightarrow> 'r Cluster Action" where
  "deleteCapabilities [] c = (None, c)"
| "deleteCapabilities (capability # capabilities) c =
     (case HandlerWithReporter_Delete capability c of
        (Some capabilityErr, c') \<Rightarrow> (Some capabilityErr, c')
      | (None, c') \<Rightarrow> deleteCapabilities capabilities c')"

definition removeServiceMesh ::
  "('r Cluster, 'e) Reconciler_scheme \<Rightarrow> DSCInitialization \<Rightarrow> 'r Cluster Action" where
  "removeServiceMesh r instance c =
     (case ServiceMesh (Spec instance) of
        None \<Rightarrow> (None, c)
      | Some sm \<Rightarrow>
          if ManagementState sm = ''Managed'' then
            (let capabilities =
                   [serviceMeshCapability r instance
                      (serviceMeshCondition r RemovedReason ''Service Mesh removed'')]
             in case authorizationCapability r instance
                       (authorizationCondition r RemovedReason
                          ''Service Mesh Authorization removed'') c of
                  Inl err \<Rightarrow> (Some err, c)
                | Inr authzCapability \<Rightarrow>
                    deleteCapabilities (capabilities @ [authzCapability]) c)
          else (None, c))"

definition configureServiceMesh ::
  "('r Cluster, 'e) Reconciler_scheme \<Rightarrow> DSCInitialization \<Rightarrow> 'r Cluster Action" where
  "configureServiceMesh r instance c =
     (let serviceMeshManagementState =
            (case ServiceMesh (Spec instance) of
               Some sm \<Rightarrow> ManagementState sm
             | None \<Rightarrow> ''Removed'')
      in if serviceMeshManagementState = ''Managed'' then
           (let capabilities =
                  [serviceMeshCapability r instance
                     (serviceMeshCondition r ConfiguredReason ''Service Mesh configured'')]
            in case authorizationCapability r instance
                      (authorizationCondition r ConfiguredReason
                         ''Service Mesh Authorization configured'') c of
                 Inl err \<Rightarrow> (Some err, c)
               | Inr authzCapability \<Rightarrow>
                   applyCapabilities r (capabilities @ [authzCapability]) c)
         else if serviceMeshManagementState = ''Unmanaged'' then (None, c)
         else if serviceMeshManagementState = ''Removed'' then
           (case removeServiceMesh r instance c of
              (Some err, c') \<Rightarrow> (Some err, c')
            | (None, c') \<Rightarrow> (None, c'))
         else (None, c))"

section \<open>Example inputs\<close>

text \<open>
  A control plane object whose status holds the given components map, and one whose
  status lists the given ready, pending and unready components.
\<close>

definition smcp_components :: "(string \<times> json) list \<Rightarrow> json" where
  "smcp_components components =
     JMap [(''status'', JMap [(''readiness'', JMap [(''components'', JMap components)])])]"

definition smcp_example :: "json list \<Rightarrow> json list \<Rightarrow> json list \<Rightarrow> json" where
  "smcp_example ready pending unready =
     JMap [(''status'', JMap [(''readiness'', JMap [(''components'',
        JMap [(''pending'', JSlice pending), (''ready'', JSlice ready), (''unready'', JSlice unready)])])])]"

text \<open>
  A cluster that is the list of config maps published so far, and an environment whose
  config map write appends to it.  The other operations are not used with it.
\<close>

definition configmap_env :: "ConfigMap list Env" where
  "configmap_env =
     \<lparr>ConfigMapMeshRef = ''service-mesh-refs'',
      ConfigMapAuthRef = ''auth-refs'',
      CreateOrUpdateConfigMap = (\<lambda>cm opts c. (None, c @ [cm])),
      CreateOrUpdateClusterRole = (\<lambda>n rules opts c. (None, c)),
      CreateOrUpdateClusterRoleBinding = (\<lambda>n subjects ref opts c. (None, c)),
      GetOperatorNamespace = Inr ''opendatahub-operator-system'',
      SubscriptionExists = (\<lambda>n c. Inr False),
      ApplyManifest = (\<lambda>m d ow c. (None, c))\<rparr>"

definition example_feature :: "ConfigMap list Feature" where
  "example_feature =
     \<lparr>feat_Name = ''mesh-shared-configmap'',
      TargetNamespace = ''opendatahub'',
      Manifests = [],
      data = \<lparr>ControlPlane = Some \<lparr>cp_Name = ''data-science-smcp'',
                                   cp_Namespace = ''istio-system'',
                                   MetricsCollection = ''Istio''\<rparr>,
              Authorization = Some \<lparr>Audiences = Some [''a'', ''b''],
                                    ProviderName = ''authorino'',
                                    AuthConfigSelector = ''security.opendatahub.io/authorization-group=default'',
                                    auth_Namespace = ''opendatahub-auth-provider''\<rparr>\<rparr>,
      preconditions = [],
      postconditions = [],
      resourceProducers = [],
      EnabledWhen = None,
      OnDelete = [],
      owner = None,
      source = \<lparr>source_Type = DSCIType, source_Name = ''default-dsci''\<rparr>,
      appNamespace = ''opendatahub''\<rparr>"

text \<open>
  A cluster that is the pair of the cluster roles and the cluster role bindings written
  so far, by name.  The role write succeeds; the binding write is refused when
  \<open>refuse\<close> is set, and the operator namespace is \<open>ns\<close>.
\<close>

definition rbac_env ::
  "error + string \<Rightarrow> bool
     \<Rightarrow> ((string \<times> PolicyRule list) list \<times> (string \<times> Subject list \<times> RoleRef) list) Env" where
  "rbac_env ns refuse =
     \<lparr>ConfigMapMeshRef = ''service-mesh-refs'',
      ConfigMapAuthRef = ''auth-refs'',
      CreateOrUpdateConfigMap = (\<lambda>cm opts c. (None, c)),
      CreateOrUpdateClusterRole = (\<lambda>n rules opts c. (None, ((n, rules) # fst c, snd c))),
      CreateOrUpdateClusterRoleBinding =
        (\<lambda>n subjects ref opts c.
           if refuse then (Some (ErrorNew ''forbidden''), c)
           else (None, (fst c, (n, subjects, ref) # snd c))),
      GetOperatorNamespace = ns,
      SubscriptionExists = (\<lambda>n c. Inr False),
      ApplyManifest = (\<lambda>m d ow c. (None, c))\<rparr>"

text \<open>
  A mesh member whose \<open>Ready\<close> condition has the given status, and a cluster in which
  the member becomes ready six seconds after time 0.
\<close>

definition smm_example :: "string \<Rightarrow> json" where
  "smm_example st =
     JMap [(''status'', JMap [(''conditions'',
        JSlice [JMap [(''type'', JString ''Ready''), (''status'', JString st)]])])]"

definition smm_clientAt :: "nat \<Rightarrow> Client" where
  "smm_clientAt t = (\<lambda>k key. Inr (smm_example (if 6000000000 \<le> t then ''True'' else ''False'')))"

text \<open>
  A cluster whose resources are the locations of the manifests applied so far, with no
  tracker and no condition yet; an environment whose manifest application records the
  location; and the features of the integration tests: one that does nothing, built
  with or without an owner, one with a precondition that always fails, and one with a
  manifest and a postcondition that always fails.
\<close>

definition empty_cluster :: "string list Cluster" where
  "empty_cluster = \<lparr>resources = [], trackers = Map.empty, ownerConditions = []\<rparr>"

definition engine_env :: "string list Cluster Env" where
  "engine_env =
     \<lparr>ConfigMapMeshRef = ''service-mesh-refs'',
      ConfigMapAuthRef = ''auth-refs'',
      CreateOrUpdateConfigMap = (\<lambda>cm opts c. (None, c)),
      CreateOrUpdateClusterRole = (\<lambda>n rules opts c. (None, c)),
      CreateOrUpdateClusterRoleBinding = (\<lambda>n subjects ref opts c. (None, c)),
      GetOperatorNamespace = Inr ''opendatahub-operator-system'',
      SubscriptionExists = (\<lambda>n c. Inr False),
      ApplyManifest = (\<lambda>m d ow c. (None, c\<lparr>resources := resources c @ [Location m]\<rparr>))\<rparr>"

definition empty_feature :: "string \<Rightarrow> OwnerReference option \<Rightarrow> string list Cluster Feature" where
  "empty_feature name ow =
     \<lparr>feat_Name = name,
      TargetNamespace = ''default'',
      Manifests = [],
      data = \<lparr>ControlPlane = None, Authorization = None\<rparr>,
      preconditions = [],
      postconditions = [],
      resourceProducers = [],
      EnabledWhen = None,
      OnDelete = [],
      owner = ow,
      source = \<lparr>source_Type = DSCIType, source_Name = ''default-dsci''\<rparr>,
      appNamespace = ''default''\<rparr>"

definition always_fail :: "string list Cluster Action" where
  "always_fail c = (Some (ErrorNew ''during test always fail''), c)"

definition precondition_fail :: "string list Cluster Feature" where
  "precondition_fail = (empty_feature ''precondition-fail'' None)\<lparr>preconditions := [always_fail]\<rparr>"

definition post_condition_failure :: "string list Cluster Feature" where
  "post_condition_failure =
     (empty_feature ''post-condition-failure'' None)
       \<lparr>Manifests := [\<lparr>Location = ''templates'', Include = [''base'']\<rparr>],
        postconditions := [always_fail]\<rparr>"

definition default_dsci :: DSCInitialization where
  "default_dsci =
     \<lparr>dsci_Name = ''default-dsci'',
      Spec = \<lparr>ApplicationsNamespace = ''default'',
              ServiceMesh = Some \<lparr>ManagementState = ''Managed'',
                                  sm_ControlPlane = \<lparr>cp_Name = ''data-science-smcp'',
                                                     cp_Namespace = ''istio-system'',
                                                     MetricsCollection = ''Istio''\<rparr>\<rparr>\<rparr>\<rparr>"

text \<open>
  A reconciler on that cluster.  The mesh capability registers the feature with the
  failing postcondition and then a feature that does nothing; the authorization
  capability registers one feature that does nothing.  \<open>authorino\<close> says whether the
  subscription of the authorization operator exists.
\<close>

definition example_condition :: "ConditionType \<Rightarrow> ConditionReason \<Rightarrow> string \<Rightarrow> Condition" where
  "example_condition ty reason message =
     \<lparr>cond_Type = ty, cond_Status = ConditionTrue, cond_Reason = reason, cond_Message = message\<rparr>"

definition example_reconciler ::
  "bool \<Rightarrow> string list Cluster Feature list \<Rightarrow> string list Cluster Reconciler" where
  "example_reconciler authorino meshFeatures =
     \<lparr>ConfigMapMeshRef = ''service-mesh-refs'',
      ConfigMapAuthRef = ''auth-refs'',
      CreateOrUpdateConfigMap = (\<lambda>cm opts c. (None, c)),
      CreateOrUpdateClusterRole = (\<lambda>n rules opts c. (None, c)),
      CreateOrUpdateClusterRoleBinding = (\<lambda>n subjects ref opts c. (None, c)),
      GetOperatorNamespace = Inr ''opendatahub-operator-system'',
      SubscriptionExists = (\<lambda>n c. Inr authorino),
      ApplyManifest = (\<lambda>m d ow c. (None, c\<lparr>resources := resources c @ [Location m]\<rparr>)),
      serviceMeshCapabilityFeatures = (\<lambda>instance c registry. FeaturesRegistry_Add meshFeatures registry),
      authorizationFeatures =
        (\<lambda>instance c registry. FeaturesRegistry_Add [empty_feature ''authz'' None] registry),
      serviceMeshCondition = example_condition CapabilityServiceMesh,
      authorizationCondition = example_condition CapabilityServiceMeshAuthorization\<rparr>"

text \<open>
  A feature whose clean-up always fails, and a cluster that holds the trackers of the
  features \<open>tracking\<close> and \<open>authz\<close> from an earlier pass.
\<close>

definition delete_fail :: "string list Cluster Feature" where
  "delete_fail = (empty_feature ''delete-fail'' None)\<lparr>OnDelete := [always_fail]\<rparr>"

definition example_tracker :: FeatureTracker where
  "example_tracker =
     \<lparr>tracker_Source = \<lparr>source_Type = DSCIType, source_Name = ''default-dsci''\<rparr>,
      tracker_AppNamespace = ''default'',
      tracker_Phase = PhaseReady,
      tracker_Conditions = [],
      OwnerReferences = []\<rparr>"

definition tracked_cluster :: "string list Cluster" where
  "tracked_cluster =
     \<lparr>resources = [],
      trackers = [(''default'', ''tracking'') \<mapsto> example_tracker,
                  (''default'', ''authz'') \<mapsto> example_tracker],
      ownerConditions = []\<rparr>"

section \<open>Control-plane component readiness\<close>

lemma assertSlice_Returns:
  "assertSlice v = Returns xs \<longleftrightarrow> v = Some (JSlice xs)"
  by (auto simp: assertSlice_def split: option.splits json.splits)

lemma assertSlice_Panics:
  "assertSlice v = Panics \<longleftrightarrow> (\<forall>xs. v \<noteq> Some (JSlice xs))"
  by (auto simp: assertSlice_def split: option.splits json.splits)

lemma Check_components:
  assumes "c gvk_ServiceMeshControlPlane \<lparr>key_Namespace = smcpNs, key_Name = smcpName\<rparr> = Inr smcpObj"
    and "NestedMap smcpObj [''status'', ''readiness'', ''components''] = (components, True, None)"
  shows "CheckControlPlaneComponentReadiness c smcpName smcpNs =
     (case assertSlice (map_of components ''ready'') of
        Panics \<Rightarrow> Panics
      | Returns ready \<Rightarrow>
     (case assertSlice (map_of components ''pending'') of
        Panics \<Rightarrow> Panics
      | Returns pending \<Rightarrow>
     (case assertSlice (map_of components ''unready'') of
        Panics \<Rightarrow> Panics
      | Returns unready \<Rightarrow>
          Returns (length pending = 0 \<and> length unready = 0 \<and> length ready > 0, None))))"
  using assms by (simp add: CheckControlPlaneComponentReadiness_def)

lemma NestedMap_smcp_example:
  "NestedMap (smcp_example r p u) [''status'', ''readiness'', ''components''] =
    ([(''pending'', JSlice p), (''ready'', JSlice r), (''unready'', JSlice u)], True, None)"
  by (simp add: NestedMap_def smcp_example_def)

text \<open>
  With the three entries of the components map holding lists, the function returns the
  readiness of the lengths and no error, and it returns \<open>ready = True\<close> only then.
\<close>

lemma component_readiness_of_lists:
  assumes get: "c gvk_ServiceMeshControlPlane \<lparr>key_Namespace = smcpNs, key_Name = smcpName\<rparr> = Inr smcpObj"
    and comps: "NestedMap smcpObj [''status'', ''readiness'', ''components''] = (components, True, None)"
  shows "((\<exists>err. CheckControlPlaneComponentReadiness c smcpName smcpNs = Returns (True, err)) \<longleftrightarrow>
          (\<exists>ready pending unready.
             map_of components ''ready'' = Some (JSlice ready) \<and>
             map_of components ''pending'' = Some (JSlice pending) \<and>
             map_of components ''unready'' = Some (JSlice unready) \<and>
             length pending = 0 \<and> length unready = 0 \<and> length ready > 0))
       \<and> (\<forall>ready pending unready.
             map_of components ''ready'' = Some (JSlice ready) \<and>
             map_of components ''pending'' = Some (JSlice pending) \<and>
             map_of components ''unready'' = Some (JSlice unready) \<longrightarrow>
             CheckControlPlaneComponentReadiness c smcpName smcpNs =
               Returns (length pending = 0 \<and> length unready = 0 \<and> length ready > 0, None))
       \<and> (map_of components ''ready'' = Some (JSlice []) \<and>
          map_of components ''pending'' = Some (JSlice []) \<and>
          map_of components ''unready'' = Some (JSlice []) \<longrightarrow>
          CheckControlPlaneComponentReadiness c smcpName smcpNs = Returns (False, None))"
proof (intro conjI)
  have eq: "CheckControlPlaneComponentReadiness c smcpName smcpNs =
     (case assertSlice (map_of components ''ready'') of
        Panics \<Rightarrow> Panics
      | Returns ready \<Rightarrow>
     (case assertSlice (map_of components ''pending'') of
        Panics \<Rightarrow> Panics
      | Returns pending \<Rightarrow>
     (case assertSlice (map_of components ''unready'') of
        Panics \<Rightarrow> Panics
      | Returns unready \<Rightarrow>
          Returns (length pending = 0 \<and> length unready = 0 \<and> length ready > 0, None))))"
    using get comps by (rule Check_components)
  show "(\<exists>err. CheckControlPlaneComponentReadiness c smcpName smcpNs = Returns (True, err)) \<longleftrightarrow>
          (\<exists>ready pending unready.
             map_of components ''ready'' = Some (JSlice ready) \<and>
             map_of components ''pending'' = Some (JSlice pending) \<and>
             map_of components ''unready'' = Some (JSlice unready) \<and>
             length pending = 0 \<and> length unready = 0 \<and> length ready > 0)"
    unfolding eq
    by (auto simp: assertSlice_Returns assertSlice_Panics split: go_result.splits)
  show "\<forall>ready pending unready.
             map_of components ''ready'' = Some (JSlice ready) \<and>
             map_of components ''pending'' = Some (JSlice pending) \<and>
             map_of components ''unready'' = Some (JSlice unready) \<longrightarrow>
             CheckControlPlaneComponentReadiness c smcpName smcpNs =
               Returns (length pending = 0 \<and> length unready = 0 \<and> length ready > 0, None)"
    unfolding eq by (simp add: assertSlice_def)
  show "map_of components ''ready'' = Some (JSlice []) \<and>
          map_of components ''pending'' = Some (JSlice []) \<and>
          map_of components ''unready'' = Some (JSlice []) \<longrightarrow>
          CheckControlPlaneComponentReadiness c smcpName smcpNs = Returns (False, None)"
    unfolding eq by (simp add: assertSlice_def)
qed

text \<open>
  Claim C1.  The claim says that for every control-plane object whose status holds a
  \<open>readiness.components\<close> map the function returns \<open>ready = True\<close> exactly when
  no component is pending, none is unready and at least one is ready, and that a control
  plane without any component is reported not ready.  The code does not do so where an
  entry of the map is absent: on a components map that lists the one ready component
  \<open>istiod\<close> and nothing else, and on an empty components map, the map is found
  and the function panics at a forced type assertion instead of returning
  \<open>ready = True\<close>, respectively \<open>ready = False\<close>.
\<close>

theorem C1_panics_on_absent_lists:
  "NestedMap (smcp_components [(''ready'', JSlice [JString ''istiod''])])
       [''status'', ''readiness'', ''components''] =
     ([(''ready'', JSlice [JString ''istiod''])], True, None)
   \<and> CheckControlPlaneComponentReadiness
       (\<lambda>k key. Inr (smcp_components [(''ready'', JSlice [JString ''istiod''])]))
       ''data-science-smcp'' ''istio-system'' = Panics
   \<and> NestedMap (smcp_components []) [''status'', ''readiness'', ''components''] =
     ([], True, None)
   \<and> CheckControlPlaneComponentReadiness (\<lambda>k key. Inr (smcp_components []))
       ''data-science-smcp'' ''istio-system'' = Panics"
  by (simp add: CheckControlPlaneComponentReadiness_def NestedMap_def assertSlice_def
      smcp_components_def)

text \<open>
  The panics of C1, used: the function returns neither \<open>ready = True\<close> on the
  control plane with the one ready component nor \<open>ready = False\<close> on the control
  plane without components.
\<close>

theorem C1_panics_on_absent_lists_witness:
  "\<not> (\<exists>err. CheckControlPlaneComponentReadiness
       (\<lambda>k key. Inr (smcp_components [(''ready'', JSlice [JString ''istiod''])]))
       ''data-science-smcp'' ''istio-system'' = Returns (True, err))
   \<and> \<not> (\<exists>err. CheckControlPlaneComponentReadiness (\<lambda>k key. Inr (smcp_components []))
       ''data-science-smcp'' ''istio-system'' = Returns (False, err))"
  using C1_panics_on_absent_lists by simp

text \<open>
  Claim C7.  The claim says that with the \<open>readiness.components\<close> map present the
  reads of its three entries and the type assertions on them always succeed.  They do
  not: the assertions are forced, and on a components map that lacks the \<open>pending\<close>
  entry the function panics instead of returning a pair.
\<close>

theorem C7_panics_on_missing_entry:
  "CheckControlPlaneComponentReadiness
     (\<lambda>k key. Inr (JMap [(''status'', JMap [(''readiness'', JMap [(''components'',
        JMap [(''ready'', JSlice [JString ''istiod'']), (''unready'', JSlice [])])])])]))
     ''data-science-smcp'' ''istio-system'' = Panics"
  by (simp add: CheckControlPlaneComponentReadiness_def NestedMap_def assertSlice_def)

text \<open>
  The panic of C7, used: on that object the function returns no pair at all.
\<close>

theorem C7_panics_witness:
  "\<not> (\<exists>r. CheckControlPlaneComponentReadiness
     (\<lambda>k key. Inr (JMap [(''status'', JMap [(''readiness'', JMap [(''components'',
        JMap [(''ready'', JSlice [JString ''istiod'']), (''unready'', JSlice [])])])])]))
     ''data-science-smcp'' ''istio-system'' = Returns r)"
  using C7_panics_on_missing_entry by simp

section \<open>Policy rules of the platform role\<close>

lemma createPolicyRules_loop_eq:
  "createPolicyRules_loop refs gs rs =
     (gs @ map (\<lambda>r. Group (ref_GroupVersionKind r)) refs,
      rs @ map ref_Resources refs)"
  by (induction refs arbitrary: gs rs) simp_all

text \<open>
  Claim C9.  For every list of object references, the empty list included,
  \<open>createPolicyRules\<close> returns exactly one policy rule: its API groups are the groups
  of the references and its resources are the resources of the references, one entry
  per reference in input order, and its verbs are get, list, watch, update, patch, so
  neither create nor delete is granted.
\<close>

theorem C9_createPolicyRules:
  "createPolicyRules refs =
     [\<lparr>APIGroups = map (\<lambda>r. Group (ref_GroupVersionKind r)) refs,
       Resources = map ref_Resources refs,
       Verbs = [''get'', ''list'', ''watch'', ''update'', ''patch'']\<rparr>]
   \<and> length (createPolicyRules refs) = 1
   \<and> length (APIGroups (hd (createPolicyRules refs))) = length refs
   \<and> length (Resources (hd (createPolicyRules refs))) = length refs
   \<and> ''create'' \<notin> set (Verbs (hd (createPolicyRules refs)))
   \<and> ''delete'' \<notin> set (Verbs (hd (createPolicyRules refs)))"
  by (simp add: createPolicyRules_def createPolicyRules_loop_eq)

text \<open>The instance of C9 at the empty list and at a list of two references.\<close>

theorem C9_createPolicyRules_witness:
  "createPolicyRules [] =
     [\<lparr>APIGroups = [], Resources = [],
       Verbs = [''get'', ''list'', ''watch'', ''update'', ''patch'']\<rparr>]
   \<and> createPolicyRules
       [\<lparr>ref_GroupVersionKind = \<lparr>Group = ''serving.kserve.io'', Version = ''v1beta1'', Kind = ''InferenceService''\<rparr>,
         ref_Resources = ''inferenceservices''\<rparr>,
        \<lparr>ref_GroupVersionKind = \<lparr>Group = ''apps'', Version = ''v1'', Kind = ''Deployment''\<rparr>,
         ref_Resources = ''deployments''\<rparr>] =
     [\<lparr>APIGroups = [''serving.kserve.io'', ''apps''],
       Resources = [''inferenceservices'', ''deployments''],
       Verbs = [''get'', ''list'', ''watch'', ''update'', ''patch'']\<rparr>]"
  using C9_createPolicyRules [of "[]"]
    C9_createPolicyRules [of
       "[\<lparr>ref_GroupVersionKind = \<lparr>Group = ''serving.kserve.io'', Version = ''v1beta1'', Kind = ''InferenceService''\<rparr>,
         ref_Resources = ''inferenceservices''\<rparr>,
        \<lparr>ref_GroupVersionKind = \<lparr>Group = ''apps'', Version = ''v1'', Kind = ''Deployment''\<rparr>,
         ref_Resources = ''deployments''\<rparr>]"]
  by simp

section \<open>The config map side-channel\<close>

lemma strings_Join_audiences:
  "(if length as > 0 then strings_Join as '','' else []) = strings_Join as '',''"
  by (cases as) simp_all

text \<open>
  Claim C6.  With the control-plane entry in the feature's data, \<open>MeshRefs\<close> is the
  create-or-update of the config map named \<open>ConfigMapMeshRef\<close> in the feature's target
  namespace whose data has exactly the keys \<open>CONTROL_PLANE_NAME\<close> and
  \<open>MESH_NAMESPACE\<close>, holding the name and namespace of the control plane.  With the
  authorization entry, \<open>AuthRefs\<close> is the create-or-update of the config map named
  \<open>ConfigMapAuthRef\<close> in the same namespace whose data has exactly the keys
  \<open>AUTH_AUDIENCE\<close>, \<open>AUTH_PROVIDER\<close> and \<open>AUTHORINO_LABEL\<close>, holding the
  comma-joined audiences (empty for none), the provider name and the selector.  Without
  the entry each producer returns the wrapped extraction error and leaves the cluster
  as it is, whatever the config map write of the environment would do.
\<close>

theorem C6_config_map_side_channel:
  "(\<forall>cp. ControlPlane (data f) = Some cp \<longrightarrow>
      MeshRefs env f c =
        CreateOrUpdateConfigMap env
          \<lparr>cm_Name = ConfigMapMeshRef env, cm_Namespace = TargetNamespace f,
           cm_Data = [''CONTROL_PLANE_NAME'' \<mapsto> cp_Name cp,
                      ''MESH_NAMESPACE'' \<mapsto> cp_Namespace cp]\<rparr>
          [OwnedBy (owner f)] c
      \<and> dom [''CONTROL_PLANE_NAME'' \<mapsto> cp_Name cp, ''MESH_NAMESPACE'' \<mapsto> cp_Namespace cp]
          = {''CONTROL_PLANE_NAME'', ''MESH_NAMESPACE''})
   \<and> (\<forall>auth. Authorization (data f) = Some auth \<longrightarrow>
      AuthRefs env f c =
        CreateOrUpdateConfigMap env
          \<lparr>cm_Name = ConfigMapAuthRef env, cm_Namespace = TargetNamespace f,
           cm_Data = [''AUTH_AUDIENCE'' \<mapsto>
                         (case Audiences auth of None \<Rightarrow> [] | Some as \<Rightarrow> strings_Join as '',''),
                      ''AUTH_PROVIDER'' \<mapsto> ProviderName auth,
                      ''AUTHORINO_LABEL'' \<mapsto> AuthConfigSelector auth]\<rparr>
          [OwnedBy (owner f)] c
      \<and> dom [''AUTH_AUDIENCE'' \<mapsto>
                 (case Audiences auth of None \<Rightarrow> [] | Some as \<Rightarrow> strings_Join as '',''),
              ''AUTH_PROVIDER'' \<mapsto> ProviderName auth,
              ''AUTHORINO_LABEL'' \<mapsto> AuthConfigSelector auth]
          = {''AUTH_AUDIENCE'', ''AUTH_PROVIDER'', ''AUTHORINO_LABEL''})
   \<and> (ControlPlane (data f) = None \<longrightarrow>
      (\<exists>err. MeshRefs env f c =
         (Some (Errorf ''failed to get control plane struct'' (Some err)), c)))
   \<and> (Authorization (data f) = None \<longrightarrow>
      (\<exists>err. AuthRefs env f c =
         (Some (Errorf ''could not get auth from feature'' (Some err)), c)))"
proof (intro conjI allI impI)
  fix cp assume "ControlPlane (data f) = Some cp"
  then show "MeshRefs env f c =
        CreateOrUpdateConfigMap env
          \<lparr>cm_Name = ConfigMapMeshRef env, cm_Namespace = TargetNamespace f,
           cm_Data = [''CONTROL_PLANE_NAME'' \<mapsto> cp_Name cp,
                      ''MESH_NAMESPACE'' \<mapsto> cp_Namespace cp]\<rparr>
          [OwnedBy (owner f)] c"
    by (simp add: MeshRefs_def Extract_ControlPlane_def)
next
  fix cp
  show "dom [''CONTROL_PLANE_NAME'' \<mapsto> cp_Name cp, ''MESH_NAMESPACE'' \<mapsto> cp_Namespace cp]
          = {''CONTROL_PLANE_NAME'', ''MESH_NAMESPACE''}"
    by auto
next
  fix auth assume "Authorization (data f) = Some auth"
  then show "AuthRefs env f c =
        CreateOrUpdateConfigMap env
          \<lparr>cm_Name = ConfigMapAuthRef env, cm_Namespace = TargetNamespace f,
           cm_Data = [''AUTH_AUDIENCE'' \<mapsto>
                         (case Audiences auth of None \<Rightarrow> [] | Some as \<Rightarrow> strings_Join as '',''),
                      ''AUTH_PROVIDER'' \<mapsto> ProviderName auth,
                      ''AUTHORINO_LABEL'' \<mapsto> AuthConfigSelector auth]\<rparr>
          [OwnedBy (owner f)] c"
    by (simp add: AuthRefs_def Extract_Authorization_def strings_Join_audiences
        split: option.splits)
next
  fix auth
  show "dom [''AUTH_AUDIENCE'' \<mapsto>
                 (case Audiences auth of None \<Rightarrow> [] | Some as \<Rightarrow> strings_Join as '',''),
              ''AUTH_PROVIDER'' \<mapsto> ProviderName auth,
              ''AUTHORINO_LABEL'' \<mapsto> AuthConfigSelector auth]
          = {''AUTH_AUDIENCE'', ''AUTH_PROVIDER'', ''AUTHORINO_LABEL''}"
    by auto
next
  assume "ControlPlane (data f) = None"
  then show "\<exists>err. MeshRefs env f c =
         (Some (Errorf ''failed to get control plane struct'' (Some err)), c)"
    by (simp add: MeshRefs_def Extract_ControlPlane_def)
next
  assume "Authorization (data f) = None"
  then show "\<exists>err. AuthRefs env f c =
         (Some (Errorf ''could not get auth from feature'' (Some err)), c)"
    by (simp add: AuthRefs_def Extract_Authorization_def)
qed

text \<open>
  The instance of C6 at the feature \<open>mesh-shared-configmap\<close> on a cluster without
  config maps, with its data and without.
\<close>

theorem C6_config_map_side_channel_witness:
  "MeshRefs configmap_env example_feature [] =
     (None, [\<lparr>cm_Name = ''service-mesh-refs'', cm_Namespace = ''opendatahub'',
              cm_Data = [''CONTROL_PLANE_NAME'' \<mapsto> ''data-science-smcp'',
                         ''MESH_NAMESPACE'' \<mapsto> ''istio-system'']\<rparr>])
   \<and> AuthRefs configmap_env example_feature [] =
     (None, [\<lparr>cm_Name = ''auth-refs'', cm_Namespace = ''opendatahub'',
              cm_Data = [''AUTH_AUDIENCE'' \<mapsto> ''a,b'',
                         ''AUTH_PROVIDER'' \<mapsto> ''authorino'',
                         ''AUTHORINO_LABEL'' \<mapsto> ''security.opendatahub.io/authorization-group=default'']\<rparr>])
   \<and> MeshRefs configmap_env (example_feature\<lparr>data := \<lparr>ControlPlane = None, Authorization = None\<rparr>\<rparr>) [] =
     (Some (Errorf ''failed to get control plane struct'' (Some (DataNotFound ''ControlPlane''))), [])
   \<and> AuthRefs configmap_env (example_feature\<lparr>data := \<lparr>ControlPlane = None, Authorization = None\<rparr>\<rparr>) [] =
     (Some (Errorf ''could not get auth from feature'' (Some (DataNotFound ''Authorization''))), [])"
  using C6_config_map_side_channel [of example_feature configmap_env "[]"]
    C6_config_map_side_channel
      [of "example_feature\<lparr>data := \<lparr>ControlPlane = None, Authorization = None\<rparr>\<rparr>" configmap_env "[]"]
  by (simp add: example_feature_def configmap_env_def MeshRefs_def AuthRefs_def
      Extract_ControlPlane_def Extract_Authorization_def)

section \<open>The platform role and its binding\<close>

text \<open>
  Claim C10.  \<open>CreateOrUpdatePlatformRBAC\<close> writes the cluster role first.  If that
  write fails the error is returned wrapped and the binding is not written.  If it
  succeeds and the operator namespace cannot be found, the error is returned and the
  cluster is the one the role write left.  Otherwise the binding, bound to the service
  account \<open>opendatahub-operator-controller-manager\<close> in the operator namespace and
  to the cluster role of the given name, is written to the cluster that the role write
  left; a failure of that write is returned wrapped, and the cluster is the one that
  write left.  Nothing is undone: whatever the binding write does not change (the
  cluster roles, for one) is, after the function, as the role write left it.
\<close>

theorem C10_platform_rbac:
  "(\<forall>err c1.
      CreateOrUpdateClusterRole env roleName (createPolicyRules refs) opts c = (Some err, c1) \<longrightarrow>
      CreateOrUpdatePlatformRBAC env roleName refs opts c =
        (Some (Errorf ''failed creating cluster role'' (Some err)), c1))
   \<and> (\<forall>c1 errNS.
      CreateOrUpdateClusterRole env roleName (createPolicyRules refs) opts c = (None, c1) \<and>
      GetOperatorNamespace env = Inl errNS \<longrightarrow>
      CreateOrUpdatePlatformRBAC env roleName refs opts c =
        (Some (Errorf ''failed getting operator namespace'' (Some errNS)), c1))
   \<and> (\<forall>c1 namespace r c2.
      CreateOrUpdateClusterRole env roleName (createPolicyRules refs) opts c = (None, c1) \<and>
      GetOperatorNamespace env = Inr namespace \<and>
      CreateOrUpdateClusterRoleBinding env roleName
        [\<lparr>subject_Kind = ''ServiceAccount'',
          subject_Name = ''opendatahub-operator-controller-manager'',
          subject_Namespace = namespace\<rparr>]
        \<lparr>ref_APIGroup = ''rbac.authorization.k8s.io'', ref_Kind = ''ClusterRole'',
         ref_Name = roleName\<rparr> opts c1 = (r, c2) \<longrightarrow>
      CreateOrUpdatePlatformRBAC env roleName refs opts c =
        (map_option (\<lambda>err. Errorf ''failed creating cluster role binding'' (Some err)) r, c2))
   \<and> (\<forall>c1 obs.
      CreateOrUpdateClusterRole env roleName (createPolicyRules refs) opts c = (None, c1) \<and>
      (\<forall>n subjects ref os s. obs (snd (CreateOrUpdateClusterRoleBinding env n subjects ref os s)) = obs s) \<longrightarrow>
      obs (snd (CreateOrUpdatePlatformRBAC env roleName refs opts c)) = obs c1)"
proof (intro conjI allI impI)
  fix err c1
  assume "CreateOrUpdateClusterRole env roleName (createPolicyRules refs) opts c = (Some err, c1)"
  then show "CreateOrUpdatePlatformRBAC env roleName refs opts c =
        (Some (Errorf ''failed creating cluster role'' (Some err)), c1)"
    by (simp add: CreateOrUpdatePlatformRBAC_def)
next
  fix c1 errNS
  assume "CreateOrUpdateClusterRole env roleName (createPolicyRules refs) opts c = (None, c1) \<and>
      GetOperatorNamespace env = Inl errNS"
  then show "CreateOrUpdatePlatformRBAC env roleName refs opts c =
        (Some (Errorf ''failed getting operator namespace'' (Some errNS)), c1)"
    by (simp add: CreateOrUpdatePlatformRBAC_def)
next
  fix c1 namespace r c2
  assume "CreateOrUpdateClusterRole env roleName (createPolicyRules refs) opts c = (None, c1) \<and>
      GetOperatorNamespace env = Inr namespace \<and>
      CreateOrUpdateClusterRoleBinding env roleName
        [\<lparr>subject_Kind = ''ServiceAccount'',
          subject_Name = ''opendatahub-operator-controller-manager'',
          subject_Namespace = namespace\<rparr>]
        \<lparr>ref_APIGroup = ''rbac.authorization.k8s.io'', ref_Kind = ''ClusterRole'',
         ref_Name = roleName\<rparr> opts c1 = (r, c2)"
  then show "CreateOrUpdatePlatformRBAC env roleName refs opts c =
        (map_option (\<lambda>err. Errorf ''failed creating cluster role binding'' (Some err)) r, c2)"
    by (cases r) (simp_all add: CreateOrUpdatePlatformRBAC_def createPlatformRoleBinding_def)
next
  fix c1 and obs :: "'a \<Rightarrow> 'c"
  assume a: "CreateOrUpdateClusterRole env roleName (createPolicyRules refs) opts c = (None, c1) \<and>
      (\<forall>n subjects ref os s.
         obs (snd (CreateOrUpdateClusterRoleBinding env n subjects ref os s)) = obs s)"
  then have role: "CreateOrUpdateClusterRole env roleName (createPolicyRules refs) opts c = (None, c1)"
    and keep: "\<And>n subjects ref os s.
         obs (snd (CreateOrUpdateClusterRoleBinding env n subjects ref os s)) = obs s"
    by simp_all
  show "obs (snd (CreateOrUpdatePlatformRBAC env roleName refs opts c)) = obs c1"
  proof (cases "GetOperatorNamespace env")
    case (Inl errNS)
    with role show ?thesis by (simp add: CreateOrUpdatePlatformRBAC_def)
  next
    case (Inr namespace)
    obtain r c2 where b: "CreateOrUpdateClusterRoleBinding env roleName
        (fst (createPlatformRoleBinding roleName namespace))
        (snd (createPlatformRoleBinding roleName namespace)) opts c1 = (r, c2)"
      by (cases "CreateOrUpdateClusterRoleBinding env roleName
        (fst (createPlatformRoleBinding roleName namespace))
        (snd (createPlatformRoleBinding roleName namespace)) opts c1") auto
    have "obs c2 = obs c1"
      using keep [of roleName "fst (createPlatformRoleBinding roleName namespace)"
          "snd (createPlatformRoleBinding roleName namespace)" opts c1] b
      by simp
    with role Inr b show ?thesis
      by (cases r) (simp_all add: CreateOrUpdatePlatformRBAC_def createPlatformRoleBinding_def)
  qed
qed

text \<open>
  The instance of C10 on an empty cluster: with the binding write refused, and with the
  operator namespace unknown, the function returns the error and the cluster role is in
  place; with neither failure both objects are in place.
\<close>

theorem C10_platform_rbac_witness:
  "CreateOrUpdatePlatformRBAC (rbac_env (Inr ''opendatahub-operator-system'') True)
      ''platform-role'' [] [] ([], []) =
     (Some (Errorf ''failed creating cluster role binding'' (Some (ErrorNew ''forbidden''))),
      ([(''platform-role'', createPolicyRules [])], []))
   \<and> CreateOrUpdatePlatformRBAC (rbac_env (Inl (ErrorNew ''no namespace'')) False)
      ''platform-role'' [] [] ([], []) =
     (Some (Errorf ''failed getting operator namespace'' (Some (ErrorNew ''no namespace''))),
      ([(''platform-role'', createPolicyRules [])], []))
   \<and> CreateOrUpdatePlatformRBAC (rbac_env (Inr ''opendatahub-operator-system'') False)
      ''platform-role'' [] [] ([], []) =
     (None,
      ([(''platform-role'', createPolicyRules [])],
       [(''platform-role'',
         [\<lparr>subject_Kind = ''ServiceAccount'',
           subject_Name = ''opendatahub-operator-controller-manager'',
           subject_Namespace = ''opendatahub-operator-system''\<rparr>],
         \<lparr>ref_APIGroup = ''rbac.authorization.k8s.io'', ref_Kind = ''ClusterRole'',
          ref_Name = ''platform-role''\<rparr>)]))"
  using C10_platform_rbac [of "rbac_env (Inr ''opendatahub-operator-system'') True"
      "''platform-role''" "[]" "[]" "([], [])"]
    C10_platform_rbac [of "rbac_env (Inl (ErrorNew ''no namespace'')) False"
      "''platform-role''" "[]" "[]" "([], [])"]
    C10_platform_rbac [of "rbac_env (Inr ''opendatahub-operator-system'') False"
      "''platform-role''" "[]" "[]" "([], [])"]
  by (simp add: rbac_env_def CreateOrUpdatePlatformRBAC_def createPlatformRoleBinding_def)

section \<open>The readiness polls\<close>

lemma ticks_Suc:
  "map (\<lambda>k. now + k * ivl) [1..<Suc (Suc n)] =
     (now + ivl) # map (\<lambda>k. (now + ivl) + k * ivl) [1..<Suc n]"
proof -
  have "[1..<Suc (Suc n)] = 1 # map Suc [1..<Suc n]"
    by (simp add: upt_conv_Cons map_Suc_upt del: upt_Suc)
  then show ?thesis
    by (simp add: o_def add.assoc del: upt_Suc)
qed

lemma loop_ctx_done:
  "fst ctx \<le> now + ivl \<Longrightarrow>
   loopConditionUntilContext ctx ivl condition now calls = Some (Returns (Some (snd ctx)), calls)"
  by (subst loopConditionUntilContext.simps) simp

lemma loop_panics:
  "now + ivl < fst ctx \<Longrightarrow> condition (now + ivl) = Panics \<Longrightarrow>
   loopConditionUntilContext ctx ivl condition now calls = Some (Panics, calls @ [now + ivl])"
  by (subst loopConditionUntilContext.simps) simp

lemma loop_decides:
  "now + ivl < fst ctx \<Longrightarrow> condition (now + ivl) = Returns r \<Longrightarrow> snd r \<noteq> None \<or> fst r \<Longrightarrow>
   loopConditionUntilContext ctx ivl condition now calls = Some (Returns (snd r), calls @ [now + ivl])"
  by (subst loopConditionUntilContext.simps) auto

lemma loop_waits:
  "now + ivl < fst ctx \<Longrightarrow> condition (now + ivl) = Returns (False, None) \<Longrightarrow>
   loopConditionUntilContext ctx ivl condition now calls =
     loopConditionUntilContext ctx ivl condition (now + ivl) (calls @ [now + ivl])"
  by (subst loopConditionUntilContext.simps) (simp add: Let_def)

lemma loop_skip:
  "(\<And>k. 1 \<le> k \<Longrightarrow> k \<le> n \<Longrightarrow> condition (now + k * ivl) = Returns (False, None)) \<Longrightarrow>
   now + n * ivl < fst ctx \<Longrightarrow>
   loopConditionUntilContext ctx ivl condition now calls =
     loopConditionUntilContext ctx ivl condition (now + n * ivl)
       (calls @ map (\<lambda>k. now + k * ivl) [1..<Suc n])"
proof (induction n arbitrary: now calls)
  case 0
  then show ?case by simp
next
  case (Suc n)
  have first: "condition (now + ivl) = Returns (False, None)"
    using Suc.prems(1) [of 1] by simp
  have lt: "now + ivl < fst ctx"
    using Suc.prems(2) by (simp add: le_less_trans)
  have rest: "condition ((now + ivl) + k * ivl) = Returns (False, None)"
    if "1 \<le> k" "k \<le> n" for k
    using Suc.prems(1) [of "Suc k"] that by (simp add: add.assoc)
  have bound: "(now + ivl) + n * ivl < fst ctx"
    using Suc.prems(2) by (simp add: add.assoc)
  have "loopConditionUntilContext ctx ivl condition now calls =
        loopConditionUntilContext ctx ivl condition (now + ivl) (calls @ [now + ivl])"
    using lt first by (rule loop_waits)
  also have "\<dots> = loopConditionUntilContext ctx ivl condition ((now + ivl) + n * ivl)
       ((calls @ [now + ivl]) @ map (\<lambda>k. (now + ivl) + k * ivl) [1..<Suc n])"
    using rest bound by (rule Suc.IH)
  also have "(now + ivl) + n * ivl = now + Suc n * ivl"
    by (simp add: add.assoc)
  also have "(calls @ [now + ivl]) @ map (\<lambda>k. (now + ivl) + k * ivl) [1..<Suc n] =
       calls @ map (\<lambda>k. now + k * ivl) [1..<Suc (Suc n)]"
    by (simp only: ticks_Suc append_assoc append_Cons append_Nil)
  finally show ?case .
qed

lemma loop_terminates:
  assumes "0 < ivl"
  shows "\<exists>res n. loopConditionUntilContext ctx ivl condition now calls =
            Some (res, calls @ map (\<lambda>k. now + k * ivl) [1..<Suc n])
          \<and> (\<forall>k. 1 \<le> k \<and> k \<le> n \<longrightarrow> now + k * ivl < fst ctx)"
proof (induction "fst ctx - now" arbitrary: now calls rule: less_induct)
  case less
  show ?case
  proof (cases "fst ctx \<le> now + ivl")
    case True
    then have "loopConditionUntilContext ctx ivl condition now calls =
        Some (Returns (Some (snd ctx)), calls @ map (\<lambda>k. now + k * ivl) [1..<Suc 0])"
      by (simp add: loop_ctx_done)
    then show ?thesis by (intro exI [of _ "Returns (Some (snd ctx))"] exI [of _ 0]) simp
  next
    case False
    then have lt: "now + ivl < fst ctx" by simp
    show ?thesis
    proof (cases "condition (now + ivl)")
      case Panics
      with lt have "loopConditionUntilContext ctx ivl condition now calls =
          Some (Panics, calls @ map (\<lambda>k. now + k * ivl) [1..<Suc 1])"
        by (simp add: loop_panics)
      moreover have "\<forall>k. 1 \<le> k \<and> k \<le> 1 \<longrightarrow> now + k * ivl < fst ctx"
        using lt by (auto simp: le_antisym)
      ultimately show ?thesis by blast
    next
      case (Returns r)
      show ?thesis
      proof (cases "snd r \<noteq> None \<or> fst r")
        case True
        with lt Returns have "loopConditionUntilContext ctx ivl condition now calls =
            Some (Returns (snd r), calls @ map (\<lambda>k. now + k * ivl) [1..<Suc 1])"
          by (simp add: loop_decides)
        moreover have "\<forall>k. 1 \<le> k \<and> k \<le> 1 \<longrightarrow> now + k * ivl < fst ctx"
          using lt by (auto simp: le_antisym)
        ultimately show ?thesis by blast
      next
        case False
        then have r: "r = (False, None)" by (cases r) simp
        have step: "loopConditionUntilContext ctx ivl condition now calls =
            loopConditionUntilContext ctx ivl condition (now + ivl) (calls @ [now + ivl])"
          using lt Returns r by (simp add: loop_waits)
        have "fst ctx - (now + ivl) < fst ctx - now"
          using lt assms by simp
        from less [OF this, of "calls @ [now + ivl]"]
        obtain res n where
          eq: "loopConditionUntilContext ctx ivl condition (now + ivl) (calls @ [now + ivl]) =
                 Some (res, (calls @ [now + ivl]) @ map (\<lambda>k. (now + ivl) + k * ivl) [1..<Suc n])"
          and bd: "\<forall>k. 1 \<le> k \<and> k \<le> n \<longrightarrow> (now + ivl) + k * ivl < fst ctx"
          by blast
        have "loopConditionUntilContext ctx ivl condition now calls =
            Some (res, calls @ map (\<lambda>k. now + k * ivl) [1..<Suc (Suc n)])"
          using step eq by (simp only: ticks_Suc append_assoc append_Cons append_Nil)
        moreover have "\<forall>k. 1 \<le> k \<and> k \<le> Suc n \<longrightarrow> now + k * ivl < fst ctx"
        proof (intro allI impI)
          fix k assume k: "1 \<le> k \<and> k \<le> Suc n"
          show "now + k * ivl < fst ctx"
          proof (cases "k = 1")
            case True
            with lt show ?thesis by simp
          next
            case False
            with k obtain j where j: "k = Suc j" "1 \<le> j" "j \<le> n"
              by (cases k) auto
            with bd have "(now + ivl) + j * ivl < fst ctx" by blast
            with j show ?thesis by (simp add: add.assoc)
          qed
        qed
        ultimately show ?thesis by blast
      qed
    qed
  qed
qed

lemma poll_is_loop:
  "PollUntilContextTimeout ctx ivl timeout False condition now =
     loopConditionUntilContext (WithTimeout ctx timeout now) ivl condition now []"
  by (simp add: PollUntilContextTimeout_def)

lemma poll_decides:
  assumes wait: "\<And>k. 1 \<le> k \<Longrightarrow> k < n \<Longrightarrow> condition (now + k * ivl) = Returns (False, None)"
    and at: "condition (now + n * ivl) = Returns r" "snd r \<noteq> None \<or> fst r"
    and n: "1 \<le> n"
    and live: "now + n * ivl < fst (WithTimeout ctx timeout now)"
  shows "PollUntilContextTimeout ctx ivl timeout False condition now =
           Some (Returns (snd r), map (\<lambda>k. now + k * ivl) [1..<Suc n])"
proof -
  obtain m where m: "n = Suc m" using n by (cases n) auto
  let ?c = "WithTimeout ctx timeout now"
  have before: "now + m * ivl < fst ?c"
    using live m by (simp add: add.assoc [symmetric] add_lessD1)
  have "loopConditionUntilContext ?c ivl condition now [] =
        loopConditionUntilContext ?c ivl condition (now + m * ivl)
          ([] @ map (\<lambda>k. now + k * ivl) [1..<Suc m])"
    using wait before by (intro loop_skip) (simp_all add: m)
  also have "\<dots> = Some (Returns (snd r),
        ([] @ map (\<lambda>k. now + k * ivl) [1..<Suc m]) @ [(now + m * ivl) + ivl])"
  proof (rule loop_decides)
    have e: "now + m * ivl + ivl = now + n * ivl" by (simp add: m)
    show "now + m * ivl + ivl < fst ?c" using live by (simp only: e)
    show "condition (now + m * ivl + ivl) = Returns r" using at(1) by (simp only: e)
    show "snd r \<noteq> None \<or> fst r" by (rule at(2))
  qed
  also have "([] @ map (\<lambda>k. now + k * ivl) [1..<Suc m]) @ [(now + m * ivl) + ivl] =
        map (\<lambda>k. now + k * ivl) [1..<Suc n]"
    by (simp add: m)
  finally show ?thesis by (simp only: poll_is_loop)
qed

lemma poll_ctx_done:
  assumes wait: "\<And>k. 1 \<le> k \<Longrightarrow> k \<le> n \<Longrightarrow> condition (now + k * ivl) = Returns (False, None)"
    and before: "n \<noteq> 0 \<Longrightarrow> now + n * ivl < fst (WithTimeout ctx timeout now)"
    and over: "fst (WithTimeout ctx timeout now) \<le> now + Suc n * ivl"
  shows "PollUntilContextTimeout ctx ivl timeout False condition now =
           Some (Returns (Some (snd (WithTimeout ctx timeout now))),
                 map (\<lambda>k. now + k * ivl) [1..<Suc n])"
proof -
  let ?c = "WithTimeout ctx timeout now"
  have "loopConditionUntilContext ?c ivl condition now [] =
        loopConditionUntilContext ?c ivl condition (now + n * ivl)
          ([] @ map (\<lambda>k. now + k * ivl) [1..<Suc n])"
  proof (cases "n = 0")
    case True
    then show ?thesis by simp
  next
    case False
    with wait before show ?thesis by (intro loop_skip) simp_all
  qed
  also have "\<dots> = Some (Returns (Some (snd ?c)), [] @ map (\<lambda>k. now + k * ivl) [1..<Suc n])"
    using over by (intro loop_ctx_done) (simp add: add.assoc)
  finally show ?thesis by (simp only: poll_is_loop append_Nil)
qed

lemma poll_terminates:
  assumes "0 < ivl"
  shows "\<exists>res n. PollUntilContextTimeout ctx ivl timeout False condition now =
            Some (res, map (\<lambda>k. now + k * ivl) [1..<Suc n])
          \<and> (\<forall>k. 1 \<le> k \<and> k \<le> n \<longrightarrow> now + k * ivl < fst (WithTimeout ctx timeout now))"
  using loop_terminates [OF assms, of "WithTimeout ctx timeout now" condition now "[]"]
  by (simp only: poll_is_loop append_Nil)

lemma WithTimeout_le: "fst (WithTimeout ctx timeout now) \<le> now + timeout"
  by (simp add: WithTimeout_def split: option.splits)

lemma interval_pos: "0 < interval"
  by (simp add: interval_def Second_def)

lemma duration_interval: "duration = 150 * interval"
  by (simp add: duration_def interval_def Minute_def)

lemma tick_before_deadline: "k * interval < duration \<longleftrightarrow> k < 150"
  using interval_pos by (simp add: duration_interval)

lemma WithTimeout_alive:
  "(\<And>t e. ctx = Some (t, e) \<Longrightarrow> now + timeout < t) \<Longrightarrow>
   WithTimeout ctx timeout now = (now + timeout, ContextDeadlineExceeded)"
  by (cases ctx) (auto simp: WithTimeout_def)

lemma WithTimeout_parent:
  "t \<le> now + timeout \<Longrightarrow> WithTimeout (Some (t, e)) timeout now = (t, e)"
  by (simp add: WithTimeout_def)

lemma WithTimeout_after:
  "(\<And>t e. ctx = Some (t, e) \<Longrightarrow> x < t) \<Longrightarrow> x < now + timeout \<Longrightarrow>
   x < fst (WithTimeout ctx timeout now)"
  by (cases ctx) (auto simp: WithTimeout_def)

lemma smm_check_example:
  "serviceMeshMemberCheck (\<lambda>k key. Inr (smm_example st)) namespace = Returns (st = ''True'', None)"
  by (simp add: serviceMeshMemberCheck_def smm_example_def NestedSlice_def NestedString_def)

lemma smcp_check_example:
  "CheckControlPlaneComponentReadiness (\<lambda>k key. Inr (smcp_example r p u)) name ns =
     Returns (length p = 0 \<and> length u = 0 \<and> length r > 0, None)"
  by (simp add: CheckControlPlaneComponentReadiness_def NestedMap_smcp_example assertSlice_def)

text \<open>
  Claim C5.  Both readiness polls of the service-mesh library,
  \<open>WaitForControlPlaneToBeReady\<close> and \<open>WaitForServiceMeshMember\<close>, are the poller
  at an interval of 2 seconds under a timeout of 5 minutes, without an immediate first
  check.  Whatever the check does, the poll returns, and it has invoked the check at the
  times \<open>now + k * interval\<close> for \<open>k = 1, ..., n\<close> with \<open>n < 150\<close>, each of them
  before \<open>now + duration\<close>: it never runs beyond the bound.  It returns success at
  the first tick at which the check reports ready, the earlier checks having reported
  not ready; the deadline error when the check reports not ready at every tick before
  the deadline; and the context's error, after the checks at the ticks before the
  context is done, when the caller's context is done by the deadline.  A check that
  returns an error ends the poll at that tick with this error.  A control-plane poll
  whose feature has no control-plane data returns the extraction error without polling.
\<close>

theorem C5_readiness_polls:
  fixes ctx :: Context and condition :: Condition_Func and now :: nat
  defines "poll \<equiv> PollUntilContextTimeout ctx interval duration False condition now"
    and "tick \<equiv> \<lambda>k. now + k * interval"
  shows "interval = 2 * 1000000000 \<and> duration = 5 * (60 * 1000000000)
    \<and> (\<exists>res n. poll = Some (res, map tick [1..<Suc n]) \<and> n < 150
          \<and> (\<forall>k. 1 \<le> k \<and> k \<le> n \<longrightarrow> tick k < now + duration))
    \<and> (\<forall>n. 1 \<le> n \<and> n < 150 \<and> (\<forall>t e. ctx = Some (t, e) \<longrightarrow> tick n < t) \<and>
          (\<forall>k. 1 \<le> k \<and> k < n \<longrightarrow> condition (tick k) = Returns (False, None)) \<and>
          condition (tick n) = Returns (True, None) \<longrightarrow>
          poll = Some (Returns None, map tick [1..<Suc n]))
    \<and> (\<forall>n b err. 1 \<le> n \<and> n < 150 \<and> (\<forall>t e. ctx = Some (t, e) \<longrightarrow> tick n < t) \<and>
          (\<forall>k. 1 \<le> k \<and> k < n \<longrightarrow> condition (tick k) = Returns (False, None)) \<and>
          condition (tick n) = Returns (b, Some err) \<longrightarrow>
          poll = Some (Returns (Some err), map tick [1..<Suc n]))
    \<and> ((\<forall>t e. ctx = Some (t, e) \<longrightarrow> now + duration < t) \<and>
        (\<forall>k. 1 \<le> k \<and> k < 150 \<longrightarrow> condition (tick k) = Returns (False, None)) \<longrightarrow>
        poll = Some (Returns (Some ContextDeadlineExceeded), map tick [1..<150]))
    \<and> (\<forall>t e. ctx = Some (t, e) \<and> t \<le> now + duration \<and>
          (\<forall>k. 1 \<le> k \<and> tick k < t \<longrightarrow> condition (tick k) = Returns (False, None)) \<longrightarrow>
          (\<exists>n. poll = Some (Returns (Some e), map tick [1..<Suc n]) \<and>
               (\<forall>k. 1 \<le> k \<and> k \<le> n \<longrightarrow> tick k < t) \<and> t \<le> tick (Suc n)))
    \<and> WaitForServiceMeshMember namespace clientAt ctx now =
        PollUntilContextTimeout ctx interval duration False
          (\<lambda>t. serviceMeshMemberCheck (clientAt t) namespace) now
    \<and> (\<forall>cp. ControlPlane (data f) = Some cp \<longrightarrow>
          WaitForControlPlaneToBeReady clientAt ctx f now =
            PollUntilContextTimeout ctx interval duration False
              (\<lambda>t. CheckControlPlaneComponentReadiness (clientAt t) (cp_Name cp) (cp_Namespace cp))
              now)
    \<and> (ControlPlane (data f) = None \<longrightarrow>
          (\<exists>err. WaitForControlPlaneToBeReady clientAt ctx f now = Some (Returns (Some err), [])))"
proof (intro conjI)
  show "interval = 2 * 1000000000" by (simp add: interval_def Second_def)
  show "duration = 5 * (60 * 1000000000)" by (simp add: duration_def Minute_def Second_def)
  show "\<exists>res n. poll = Some (res, map tick [1..<Suc n]) \<and> n < 150
          \<and> (\<forall>k. 1 \<le> k \<and> k \<le> n \<longrightarrow> tick k < now + duration)"
  proof -
    obtain res n where p: "poll = Some (res, map tick [1..<Suc n])"
      and b: "\<forall>k. 1 \<le> k \<and> k \<le> n \<longrightarrow> tick k < fst (WithTimeout ctx duration now)"
      using poll_terminates [OF interval_pos, of ctx duration condition now]
      unfolding poll_def tick_def by blast
    have b': "\<forall>k. 1 \<le> k \<and> k \<le> n \<longrightarrow> tick k < now + duration"
      using b WithTimeout_le [of ctx duration now] by (auto intro: less_le_trans)
    have "n < 150"
    proof (cases "n = 0")
      case True
      then show ?thesis by simp
    next
      case False
      then have "tick n < now + duration" using b' by simp
      then show ?thesis by (simp add: tick_def tick_before_deadline)
    qed
    with p b' show ?thesis by blast
  qed
  show "\<forall>n. 1 \<le> n \<and> n < 150 \<and> (\<forall>t e. ctx = Some (t, e) \<longrightarrow> tick n < t) \<and>
          (\<forall>k. 1 \<le> k \<and> k < n \<longrightarrow> condition (tick k) = Returns (False, None)) \<and>
          condition (tick n) = Returns (True, None) \<longrightarrow>
          poll = Some (Returns None, map tick [1..<Suc n])"
  proof (intro allI impI, elim conjE)
    fix n
    assume n: "1 \<le> n" "n < 150"
      and alive: "\<forall>t e. ctx = Some (t, e) \<longrightarrow> tick n < t"
      and wait: "\<forall>k. 1 \<le> k \<and> k < n \<longrightarrow> condition (tick k) = Returns (False, None)"
      and ready: "condition (tick n) = Returns (True, None)"
    have "now + n * interval < now + duration"
      using n by (simp add: tick_before_deadline)
    with alive have live: "now + n * interval < fst (WithTimeout ctx duration now)"
      by (intro WithTimeout_after) (auto simp: tick_def)
    have "PollUntilContextTimeout ctx interval duration False condition now =
        Some (Returns (snd (True, None)), map (\<lambda>k. now + k * interval) [1..<Suc n])"
      using wait ready n(1) live by (intro poll_decides) (auto simp: tick_def)
    then show "poll = Some (Returns None, map tick [1..<Suc n])"
      by (simp add: poll_def tick_def)
  qed
  show "\<forall>n b err. 1 \<le> n \<and> n < 150 \<and> (\<forall>t e. ctx = Some (t, e) \<longrightarrow> tick n < t) \<and>
          (\<forall>k. 1 \<le> k \<and> k < n \<longrightarrow> condition (tick k) = Returns (False, None)) \<and>
          condition (tick n) = Returns (b, Some err) \<longrightarrow>
          poll = Some (Returns (Some err), map tick [1..<Suc n])"
  proof (intro allI impI, elim conjE)
    fix n b err
    assume n: "1 \<le> n" "n < 150"
      and alive: "\<forall>t e. ctx = Some (t, e) \<longrightarrow> tick n < t"
      and wait: "\<forall>k. 1 \<le> k \<and> k < n \<longrightarrow> condition (tick k) = Returns (False, None)"
      and fails: "condition (tick n) = Returns (b, Some err)"
    have "now + n * interval < now + duration"
      using n by (simp add: tick_before_deadline)
    with alive have live: "now + n * interval < fst (WithTimeout ctx duration now)"
      by (intro WithTimeout_after) (auto simp: tick_def)
    have "PollUntilContextTimeout ctx interval duration False condition now =
        Some (Returns (snd (b, Some err)), map (\<lambda>k. now + k * interval) [1..<Suc n])"
      using wait fails n(1) live by (intro poll_decides) (auto simp: tick_def)
    then show "poll = Some (Returns (Some err), map tick [1..<Suc n])"
      by (simp add: poll_def tick_def)
  qed
  show "(\<forall>t e. ctx = Some (t, e) \<longrightarrow> now + duration < t) \<and>
        (\<forall>k. 1 \<le> k \<and> k < 150 \<longrightarrow> condition (tick k) = Returns (False, None)) \<longrightarrow>
        poll = Some (Returns (Some ContextDeadlineExceeded), map tick [1..<150])"
  proof (intro impI, elim conjE)
    assume alive: "\<forall>t e. ctx = Some (t, e) \<longrightarrow> now + duration < t"
      and wait: "\<forall>k. 1 \<le> k \<and> k < 150 \<longrightarrow> condition (tick k) = Returns (False, None)"
    have w: "WithTimeout ctx duration now = (now + duration, ContextDeadlineExceeded)"
      using alive by (intro WithTimeout_alive) auto
    have "PollUntilContextTimeout ctx interval duration False condition now =
        Some (Returns (Some (snd (WithTimeout ctx duration now))),
              map (\<lambda>k. now + k * interval) [1..<Suc 149])"
    proof (rule poll_ctx_done)
      fix k :: nat assume "1 \<le> k" "k \<le> 149"
      then show "condition (now + k * interval) = Returns (False, None)"
        using wait by (simp add: tick_def)
    next
      show "now + 149 * interval < fst (WithTimeout ctx duration now)"
        by (simp add: w tick_before_deadline)
    next
      have "now + Suc 149 * interval = now + duration"
        by (simp add: duration_interval)
      then show "fst (WithTimeout ctx duration now) \<le> now + Suc 149 * interval"
        by (simp only: WithTimeout_le)
    qed
    then show "poll = Some (Returns (Some ContextDeadlineExceeded), map tick [1..<150])"
      by (simp add: poll_def tick_def w)
  qed
  show "\<forall>t e. ctx = Some (t, e) \<and> t \<le> now + duration \<and>
          (\<forall>k. 1 \<le> k \<and> tick k < t \<longrightarrow> condition (tick k) = Returns (False, None)) \<longrightarrow>
          (\<exists>n. poll = Some (Returns (Some e), map tick [1..<Suc n]) \<and>
               (\<forall>k. 1 \<le> k \<and> k \<le> n \<longrightarrow> tick k < t) \<and> t \<le> tick (Suc n))"
  proof (intro allI impI, elim conjE)
    fix t e
    assume ctx: "ctx = Some (t, e)" and t: "t \<le> now + duration"
      and wait: "\<forall>k. 1 \<le> k \<and> tick k < t \<longrightarrow> condition (tick k) = Returns (False, None)"
    have w: "WithTimeout ctx duration now = (t, e)"
      using t by (simp add: ctx WithTimeout_parent)
    define n where "n = (LEAST m. t \<le> tick (Suc m))"
    have "t \<le> tick (Suc t)"
      using interval_pos by (simp add: tick_def trans_le_add2)
    then have over: "t \<le> tick (Suc n)"
      unfolding n_def by (rule LeastI)
    have before: "tick k < t" if k1: "1 \<le> k" and kn: "k \<le> n" for k
    proof -
      obtain j where j: "k = Suc j" using k1 by (cases k) auto
      with kn have "j < n" by simp
      then have "\<not> t \<le> tick (Suc j)"
        unfolding n_def by (rule not_less_Least)
      with j show ?thesis by simp
    qed
    have "PollUntilContextTimeout ctx interval duration False condition now =
        Some (Returns (Some (snd (WithTimeout ctx duration now))),
              map (\<lambda>k. now + k * interval) [1..<Suc n])"
    proof (rule poll_ctx_done)
      fix k :: nat assume k: "1 \<le> k" "k \<le> n"
      then have "tick k < t" by (rule before)
      with k wait show "condition (now + k * interval) = Returns (False, None)"
        by (simp add: tick_def)
    next
      assume "n \<noteq> 0"
      then have "tick n < t" by (intro before) simp_all
      then show "now + n * interval < fst (WithTimeout ctx duration now)"
        by (simp add: w tick_def)
    next
      show "fst (WithTimeout ctx duration now) \<le> now + Suc n * interval"
        using over by (simp add: w tick_def)
    qed
    then have "poll = Some (Returns (Some e), map tick [1..<Suc n])"
      by (simp add: poll_def tick_def w)
    with before over
    show "\<exists>n. poll = Some (Returns (Some e), map tick [1..<Suc n]) \<and>
               (\<forall>k. 1 \<le> k \<and> k \<le> n \<longrightarrow> tick k < t) \<and> t \<le> tick (Suc n)"
      by blast
  qed
  show "WaitForServiceMeshMember namespace clientAt ctx now =
        PollUntilContextTimeout ctx interval duration False
          (\<lambda>t. serviceMeshMemberCheck (clientAt t) namespace) now"
    by (simp add: WaitForServiceMeshMember_def)
  show "\<forall>cp. ControlPlane (data f) = Some cp \<longrightarrow>
          WaitForControlPlaneToBeReady clientAt ctx f now =
            PollUntilContextTimeout ctx interval duration False
              (\<lambda>t. CheckControlPlaneComponentReadiness (clientAt t) (cp_Name cp) (cp_Namespace cp))
              now"
    by (simp add: WaitForControlPlaneToBeReady_def Extract_ControlPlane_def)
  show "ControlPlane (data f) = None \<longrightarrow>
          (\<exists>err. WaitForControlPlaneToBeReady clientAt ctx f now = Some (Returns (Some err), []))"
    by (simp add: WaitForControlPlaneToBeReady_def Extract_ControlPlane_def)
qed

text \<open>
  The instance of C5, from time 0: a mesh member that becomes ready after six seconds
  is waited for with checks at 2, 4 and 6 seconds; a control plane with a pending
  component for ever is given up at the deadline after the 149 checks before it; and a
  context canceled after five seconds ends the wait after the checks at 2 and 4
  seconds.
\<close>

theorem C5_readiness_polls_witness:
  "WaitForServiceMeshMember ''opendatahub'' smm_clientAt None 0 =
     Some (Returns None, [2000000000, 4000000000, 6000000000])
   \<and> WaitForControlPlaneToBeReady (\<lambda>t k key. Inr (smcp_example [] [JString ''istiod''] []))
       None example_feature 0 =
     Some (Returns (Some ContextDeadlineExceeded), map (\<lambda>k. k * 2000000000) [1..<150])
   \<and> WaitForServiceMeshMember ''opendatahub'' smm_clientAt (Some (5000000000, ContextCanceled)) 0 =
     Some (Returns (Some ContextCanceled), [2000000000, 4000000000])"
proof (intro conjI)
  let ?check = "\<lambda>t. serviceMeshMemberCheck (smm_clientAt t) ''opendatahub''"
  have ivl: "interval = 2000000000" by (simp add: interval_def Second_def)
  have check: "?check t = Returns (6000000000 \<le> t, None)" for t
    by (simp add: smm_clientAt_def smm_check_example)
  note a = C5_readiness_polls [where ctx = None and now = 0 and condition = ?check
      and namespace = "''opendatahub''" and clientAt = smm_clientAt]
  from a have eq: "WaitForServiceMeshMember ''opendatahub'' smm_clientAt None 0 =
      PollUntilContextTimeout None interval duration False ?check 0"
    by blast
  from a have "1 \<le> (3::nat) \<and> (3::nat) < 150 \<and> (\<forall>t e. (None :: Context) = Some (t, e) \<longrightarrow> 0 + 3 * interval < t) \<and>
          (\<forall>k. 1 \<le> k \<and> k < 3 \<longrightarrow> ?check (0 + k * interval) = Returns (False, None)) \<and>
          ?check (0 + 3 * interval) = Returns (True, None) \<longrightarrow>
          PollUntilContextTimeout None interval duration False ?check 0 =
            Some (Returns None, map (\<lambda>k. 0 + k * interval) [1..<Suc 3])"
    by blast
  moreover have "\<forall>k. 1 \<le> k \<and> k < 3 \<longrightarrow> ?check (0 + k * interval) = Returns (False, None)"
    by (auto simp: check ivl)
  moreover have "?check (0 + 3 * interval) = Returns (True, None)"
    by (simp add: check ivl)
  ultimately have "PollUntilContextTimeout None interval duration False ?check 0 =
            Some (Returns None, map (\<lambda>k. 0 + k * interval) [1..<Suc 3])"
    by simp
  then show "WaitForServiceMeshMember ''opendatahub'' smm_clientAt None 0 =
     Some (Returns None, [2000000000, 4000000000, 6000000000])"
    by (simp add: eq ivl upt_rec)
next
  let ?clientAt = "\<lambda>(t::nat) (k::ObjectKind) (key::ObjectKey).
      (Inr (smcp_example [] [JString ''istiod''] []) :: error + json)"
  let ?check = "\<lambda>t. CheckControlPlaneComponentReadiness (?clientAt t)
      ''data-science-smcp'' ''istio-system''"
  have ivl: "interval = 2000000000" by (simp add: interval_def Second_def)
  have check: "?check t = Returns (False, None)" for t
    by (simp add: smcp_check_example)
  note b = C5_readiness_polls [where ctx = None and now = 0 and condition = ?check
      and clientAt = ?clientAt and f = example_feature]
  from b have "\<forall>cp. ControlPlane (data example_feature) = Some cp \<longrightarrow>
          WaitForControlPlaneToBeReady ?clientAt None example_feature 0 =
            PollUntilContextTimeout None interval duration False
              (\<lambda>t. CheckControlPlaneComponentReadiness (?clientAt t) (cp_Name cp) (cp_Namespace cp))
              0"
    by blast
  then have eq: "WaitForControlPlaneToBeReady ?clientAt None example_feature 0 =
      PollUntilContextTimeout None interval duration False ?check 0"
    by (simp add: example_feature_def)
  from b have "(\<forall>t e. (None :: Context) = Some (t, e) \<longrightarrow> 0 + duration < t) \<and>
        (\<forall>k. 1 \<le> k \<and> k < 150 \<longrightarrow> ?check (0 + k * interval) = Returns (False, None)) \<longrightarrow>
        PollUntilContextTimeout None interval duration False ?check 0 =
          Some (Returns (Some ContextDeadlineExceeded), map (\<lambda>k. 0 + k * interval) [1..<150])"
    by blast
  then have "PollUntilContextTimeout None interval duration False ?check 0 =
          Some (Returns (Some ContextDeadlineExceeded), map (\<lambda>k. 0 + k * interval) [1..<150])"
    by (simp add: check)
  then show "WaitForControlPlaneToBeReady ?clientAt None example_feature 0 =
     Some (Returns (Some ContextDeadlineExceeded), map (\<lambda>k. k * 2000000000) [1..<150])"
    by (simp add: eq ivl)
next
  let ?check = "\<lambda>t. serviceMeshMemberCheck (smm_clientAt t) ''opendatahub''"
  let ?ctx = "Some (5000000000, ContextCanceled) :: Context"
  have ivl: "interval = 2000000000" by (simp add: interval_def Second_def)
  have dur: "duration = 300000000000" by (simp add: duration_def Minute_def Second_def)
  have check: "?check t = Returns (6000000000 \<le> t, None)" for t
    by (simp add: smm_clientAt_def smm_check_example)
  note c = C5_readiness_polls [where ctx = ?ctx and now = 0 and condition = ?check
      and namespace = "''opendatahub''" and clientAt = smm_clientAt]
  from c have eq: "WaitForServiceMeshMember ''opendatahub'' smm_clientAt ?ctx 0 =
      PollUntilContextTimeout ?ctx interval duration False ?check 0"
    by blast
  from c have "\<forall>t e. ?ctx = Some (t, e) \<and> t \<le> 0 + duration \<and>
          (\<forall>k. 1 \<le> k \<and> 0 + k * interval < t \<longrightarrow> ?check (0 + k * interval) = Returns (False, None)) \<longrightarrow>
          (\<exists>n. PollUntilContextTimeout ?ctx interval duration False ?check 0 =
                 Some (Returns (Some e), map (\<lambda>k. 0 + k * interval) [1..<Suc n]) \<and>
               (\<forall>k. 1 \<le> k \<and> k \<le> n \<longrightarrow> 0 + k * interval < t) \<and> t \<le> 0 + Suc n * interval)"
    by blast
  then have "\<exists>n. PollUntilContextTimeout ?ctx interval duration False ?check 0 =
                 Some (Returns (Some ContextCanceled), map (\<lambda>k. 0 + k * interval) [1..<Suc n]) \<and>
               (\<forall>k. 1 \<le> k \<and> k \<le> n \<longrightarrow> 0 + k * interval < 5000000000) \<and>
               5000000000 \<le> 0 + Suc n * interval"
    by (simp add: check ivl dur)
  then obtain n where p: "PollUntilContextTimeout ?ctx interval duration False ?check 0 =
        Some (Returns (Some ContextCanceled), map (\<lambda>k. 0 + k * interval) [1..<Suc n])"
    and lo: "\<forall>k. 1 \<le> k \<and> k \<le> n \<longrightarrow> 0 + k * interval < 5000000000"
    and hi: "5000000000 \<le> 0 + Suc n * interval"
    by blast
  have "2 \<le> n" using hi by (simp add: ivl)
  moreover have "n \<le> 2"
  proof (rule ccontr)
    assume "\<not> n \<le> 2"
    then have "1 \<le> (3::nat) \<and> 3 \<le> n" by simp
    with lo have "0 + 3 * interval < 5000000000" by blast
    then show False by (simp add: ivl)
  qed
  ultimately have "n = 2" by simp
  with p show "WaitForServiceMeshMember ''opendatahub'' smm_clientAt ?ctx 0 =
     Some (Returns (Some ContextCanceled), [2000000000, 4000000000])"
    by (simp add: eq ivl upt_rec)
qed

section \<open>The feature engine: trackers\<close>

lemma SetStatusCondition_mem: "new \<in> set (SetStatusCondition cs new)"
  by (induction cs) simp_all

lemma trackerConditions_degraded:
  "\<lparr>cond_Type = ConditionDegraded, cond_Status = ConditionTrue,
    cond_Reason = reason, cond_Message = ''feature failed''\<rparr>
     \<in> set (trackerConditions (Some reason) conds)"
  by (simp add: trackerConditions_def SetStatusCondition_mem)

lemma upsertTracker_tracker:
  "trackers (upsertTracker f failed c) (TargetNamespace f, feat_Name f) =
     Some \<lparr>tracker_Source = source f,
           tracker_AppNamespace = appNamespace f,
           tracker_Phase = (case failed of None \<Rightarrow> PhaseReady | Some _ \<Rightarrow> PhaseError),
           tracker_Conditions = trackerConditions failed
             (case trackers c (TargetNamespace f, feat_Name f) of
                None \<Rightarrow> [] | Some t \<Rightarrow> tracker_Conditions t),
           OwnerReferences = (case owner f of None \<Rightarrow> [] | Some ow \<Rightarrow> [ow])\<rparr>"
  by (simp add: upsertTracker_def Let_def)

lemma upsertTracker_resources: "resources (upsertTracker f failed c) = resources c"
  by (simp add: upsertTracker_def Let_def)

lemma Feature_Apply_pre_fails:
  assumes "enabled_at f c" and "runActions (preconditions f) c = (Some e, c1)"
  shows "Feature_Apply env f c =
           (Some (stageError f ''preconditions'' e), upsertTracker f (Some PreConditions) c1)"
  using assms by (simp add: Feature_Apply_def)

lemma Feature_Apply_post_fails:
  assumes "enabled_at f c" and "runActions (preconditions f) c = (None, c1)"
    and "runActions (map (\<lambda>m. ApplyManifest env m (data f) (owner f)) (Manifests f)) c1 = (None, c2)"
    and "runActions (resourceProducers f) c2 = (None, c3)"
    and "runActions (postconditions f) c3 = (Some e, c4)"
  shows "Feature_Apply env f c =
           (Some (stageError f ''postconditions'' e), upsertTracker f (Some PostConditions) c4)"
  using assms by (simp add: Feature_Apply_def)

lemma Feature_Apply_succeeds:
  assumes "enabled_at f c" and "Feature_Apply env f c = (None, c')"
  shows "\<exists>c4. c' = upsertTracker f None c4"
  using assms
  by (auto simp: Feature_Apply_def split: option.splits prod.splits)

lemma applyFeatures_append:
  "applyFeatures env fs c = (None, c') \<Longrightarrow>
   applyFeatures env (fs @ gs) c = applyFeatures env gs c'"
  by (induction fs arbitrary: c) (auto split: prod.splits option.splits)

lemma applyFeatures_stops:
  "applyFeatures env fs c = (None, c0) \<Longrightarrow> Feature_Apply env f c0 = (Some e, c') \<Longrightarrow>
   applyFeatures env (fs @ f # rest) c = (Some e, c')"
  by (simp add: applyFeatures_append)

lemma deleteFeatures_append:
  "deleteFeatures fs c = (None, c') \<Longrightarrow>
   deleteFeatures (fs @ gs) c = deleteFeatures gs c'"
  by (induction fs arbitrary: c) (auto split: prod.splits option.splits)

lemma register_one:
  "feat_Name f \<noteq> [] \<Longrightarrow> FeaturesRegistry_Add [f] [] = Inr ([] @ f # [])"
  by (simp add: FeaturesRegistry_Add_def registryViolations_def)

text \<open>
  Claim C2.  A features handler whose provider registers the features \<open>fs @ f # rest\<close>
  applies \<open>fs\<close> and reaches the enabled feature \<open>f\<close>.  If the preconditions of
  \<open>f\<close> fail, the handler returns an error and the persisted tracker of \<open>f\<close> has
  phase \<open>Error\<close> and a \<open>Degraded\<close> condition with status \<open>True\<close> and reason
  \<open>PreConditions\<close>; the resources are those the preconditions left.  If the
  preconditions pass, the manifests and resource producers are applied and a
  postcondition fails, the handler returns an error, the tracker has phase \<open>Error\<close>
  and a \<open>Degraded\<close> condition with status \<open>True\<close> and reason \<open>PostConditions\<close>,
  and the resources are those present when the postcondition failed: nothing is rolled
  back.
\<close>

theorem C2_tracker_records_failure:
  assumes registry: "provider c [] = Inr (fs @ f # rest)"
    and earlier: "applyFeatures env fs c = (None, c0)"
    and enabled: "enabled_at f c0"
  shows "(\<forall>e c1. runActions (preconditions f) c0 = (Some e, c1) \<longrightarrow>
           (\<exists>err c' t.
              FeaturesHandler_Apply env (ClusterFeaturesHandler ow provider) c = (Some err, c') \<and>
              trackers c' (TargetNamespace f, feat_Name f) = Some t \<and>
              tracker_Phase t = PhaseError \<and>
              (\<exists>d \<in> set (tracker_Conditions t).
                 cond_Type d = ConditionDegraded \<and> cond_Status d = ConditionTrue \<and>
                 cond_Reason d = PreConditions) \<and>
              resources c' = resources c1))
       \<and> (\<forall>e c1 c2 c3 c4.
           runActions (preconditions f) c0 = (None, c1) \<and>
           runActions (map (\<lambda>m. ApplyManifest env m (data f) (owner f)) (Manifests f)) c1 = (None, c2) \<and>
           runActions (resourceProducers f) c2 = (None, c3) \<and>
           runActions (postconditions f) c3 = (Some e, c4) \<longrightarrow>
           (\<exists>err c' t.
              FeaturesHandler_Apply env (ClusterFeaturesHandler ow provider) c = (Some err, c') \<and>
              trackers c' (TargetNamespace f, feat_Name f) = Some t \<and>
              tracker_Phase t = PhaseError \<and>
              (\<exists>d \<in> set (tracker_Conditions t).
                 cond_Type d = ConditionDegraded \<and> cond_Status d = ConditionTrue \<and>
                 cond_Reason d = PostConditions) \<and>
              resources c' = resources c4))"
proof (intro conjI allI impI)
  fix e c1
  assume pre: "runActions (preconditions f) c0 = (Some e, c1)"
  let ?c' = "upsertTracker f (Some PreConditions) c1"
  have "Feature_Apply env f c0 = (Some (stageError f ''preconditions'' e), ?c')"
    using enabled pre by (rule Feature_Apply_pre_fails)
  with earlier have "applyFeatures env (fs @ f # rest) c =
      (Some (stageError f ''preconditions'' e), ?c')"
    by (rule applyFeatures_stops)
  then have "FeaturesHandler_Apply env (ClusterFeaturesHandler ow provider) c =
      (Some (stageError f ''preconditions'' e), ?c')"
    by (simp add: FeaturesHandler_Apply_def registry)
  moreover have "\<exists>d \<in> set (trackerConditions (Some PreConditions)
        (case trackers c1 (TargetNamespace f, feat_Name f) of
           None \<Rightarrow> [] | Some t \<Rightarrow> tracker_Conditions t)).
      cond_Type d = ConditionDegraded \<and> cond_Status d = ConditionTrue \<and>
      cond_Reason d = PreConditions"
    by (rule bexI [OF _ trackerConditions_degraded]) simp
  ultimately show "\<exists>err c' t.
      FeaturesHandler_Apply env (ClusterFeaturesHandler ow provider) c = (Some err, c') \<and>
      trackers c' (TargetNamespace f, feat_Name f) = Some t \<and>
      tracker_Phase t = PhaseError \<and>
      (\<exists>d \<in> set (tracker_Conditions t).
         cond_Type d = ConditionDegraded \<and> cond_Status d = ConditionTrue \<and>
         cond_Reason d = PreConditions) \<and>
      resources c' = resources c1"
    by (simp add: upsertTracker_tracker upsertTracker_resources)
next
  fix e c1 c2 c3 c4
  assume steps: "runActions (preconditions f) c0 = (None, c1) \<and>
           runActions (map (\<lambda>m. ApplyManifest env m (data f) (owner f)) (Manifests f)) c1 = (None, c2) \<and>
           runActions (resourceProducers f) c2 = (None, c3) \<and>
           runActions (postconditions f) c3 = (Some e, c4)"
  let ?c' = "upsertTracker f (Some PostConditions) c4"
  from steps have s1: "runActions (preconditions f) c0 = (None, c1)"
    and s2: "runActions (map (\<lambda>m. ApplyManifest env m (data f) (owner f)) (Manifests f)) c1 = (None, c2)"
    and s3: "runActions (resourceProducers f) c2 = (None, c3)"
    and s4: "runActions (postconditions f) c3 = (Some e, c4)"
    by simp_all
  have "Feature_Apply env f c0 = (Some (stageError f ''postconditions'' e), ?c')"
    using enabled s1 s2 s3 s4 by (rule Feature_Apply_post_fails)
  with earlier have "applyFeatures env (fs @ f # rest) c =
      (Some (stageError f ''postconditions'' e), ?c')"
    by (rule applyFeatures_stops)
  then have "FeaturesHandler_Apply env (ClusterFeaturesHandler ow provider) c =
      (Some (stageError f ''postconditions'' e), ?c')"
    by (simp add: FeaturesHandler_Apply_def registry)
  moreover have "\<exists>d \<in> set (trackerConditions (Some PostConditions)
        (case trackers c4 (TargetNamespace f, feat_Name f) of
           None \<Rightarrow> [] | Some t \<Rightarrow> tracker_Conditions t)).
      cond_Type d = ConditionDegraded \<and> cond_Status d = ConditionTrue \<and>
      cond_Reason d = PostConditions"
    by (rule bexI [OF _ trackerConditions_degraded]) simp
  ultimately show "\<exists>err c' t.
      FeaturesHandler_Apply env (ClusterFeaturesHandler ow provider) c = (Some err, c') \<and>
      trackers c' (TargetNamespace f, feat_Name f) = Some t \<and>
      tracker_Phase t = PhaseError \<and>
      (\<exists>d \<in> set (tracker_Conditions t).
         cond_Type d = ConditionDegraded \<and> cond_Status d = ConditionTrue \<and>
         cond_Reason d = PostConditions) \<and>
      resources c' = resources c4"
    by (simp add: upsertTracker_tracker upsertTracker_resources)
qed

text \<open>
  The instance of C2 at the two features of the integration tests, each registered alone
  and applied to the empty cluster: the manifest of the feature with the failing
  postcondition is still applied afterwards.
\<close>

theorem C2_tracker_records_failure_witness:
  "(\<exists>err c' t.
      FeaturesHandler_Apply engine_env
        (ClusterFeaturesHandler default_dsci (\<lambda>c registry. FeaturesRegistry_Add [precondition_fail] registry))
        empty_cluster = (Some err, c') \<and>
      trackers c' (''default'', ''precondition-fail'') = Some t \<and>
      tracker_Phase t = PhaseError \<and>
      (\<exists>d \<in> set (tracker_Conditions t).
         cond_Type d = ConditionDegraded \<and> cond_Status d = ConditionTrue \<and>
         cond_Reason d = PreConditions) \<and>
      resources c' = [])
   \<and> (\<exists>err c' t.
      FeaturesHandler_Apply engine_env
        (ClusterFeaturesHandler default_dsci (\<lambda>c registry. FeaturesRegistry_Add [post_condition_failure] registry))
        empty_cluster = (Some err, c') \<and>
      trackers c' (''default'', ''post-condition-failure'') = Some t \<and>
      tracker_Phase t = PhaseError \<and>
      (\<exists>d \<in> set (tracker_Conditions t).
         cond_Type d = ConditionDegraded \<and> cond_Status d = ConditionTrue \<and>
         cond_Reason d = PostConditions) \<and>
      resources c' = [''templates''])"
proof (intro conjI)
  let ?p = "\<lambda>(c :: string list Cluster) registry. FeaturesRegistry_Add [precondition_fail] registry"
  have reg: "?p empty_cluster [] = Inr ([] @ precondition_fail # [])"
    by (rule register_one) (simp add: precondition_fail_def empty_feature_def)
  have earlier: "applyFeatures engine_env [] empty_cluster = (None, empty_cluster)" by simp
  have en: "enabled_at precondition_fail empty_cluster"
    by (simp add: enabled_at_def precondition_fail_def empty_feature_def)
  have pre: "runActions (preconditions precondition_fail) empty_cluster =
      (Some (ErrorNew ''during test always fail''), empty_cluster)"
    by (simp add: precondition_fail_def empty_feature_def always_fail_def)
  from C2_tracker_records_failure [of ?p empty_cluster "[]" precondition_fail "[]" engine_env
      empty_cluster default_dsci, OF reg earlier en] pre
  have "\<exists>err c' t.
      FeaturesHandler_Apply engine_env (ClusterFeaturesHandler default_dsci ?p) empty_cluster = (Some err, c') \<and>
      trackers c' (TargetNamespace precondition_fail, feat_Name precondition_fail) = Some t \<and>
      tracker_Phase t = PhaseError \<and>
      (\<exists>d \<in> set (tracker_Conditions t).
         cond_Type d = ConditionDegraded \<and> cond_Status d = ConditionTrue \<and>
         cond_Reason d = PreConditions) \<and>
      resources c' = resources empty_cluster"
    by blast
  then show "\<exists>err c' t.
      FeaturesHandler_Apply engine_env (ClusterFeaturesHandler default_dsci ?p) empty_cluster = (Some err, c') \<and>
      trackers c' (''default'', ''precondition-fail'') = Some t \<and>
      tracker_Phase t = PhaseError \<and>
      (\<exists>d \<in> set (tracker_Conditions t).
         cond_Type d = ConditionDegraded \<and> cond_Status d = ConditionTrue \<and>
         cond_Reason d = PreConditions) \<and>
      resources c' = []"
    by (simp add: precondition_fail_def empty_feature_def empty_cluster_def)
next
  let ?p = "\<lambda>(c :: string list Cluster) registry. FeaturesRegistry_Add [post_condition_failure] registry"
  let ?f = post_condition_failure
  let ?c = "empty_cluster\<lparr>resources := [''templates'']\<rparr>"
  have reg: "?p empty_cluster [] = Inr ([] @ ?f # [])"
    by (rule register_one) (simp add: post_condition_failure_def empty_feature_def)
  have earlier: "applyFeatures engine_env [] empty_cluster = (None, empty_cluster)" by simp
  have en: "enabled_at ?f empty_cluster"
    by (simp add: enabled_at_def post_condition_failure_def empty_feature_def)
  have steps: "runActions (preconditions ?f) empty_cluster = (None, empty_cluster) \<and>
      runActions (map (\<lambda>m. ApplyManifest engine_env m (data ?f) (owner ?f)) (Manifests ?f))
        empty_cluster = (None, ?c) \<and>
      runActions (resourceProducers ?f) ?c = (None, ?c) \<and>
      runActions (postconditions ?f) ?c = (Some (ErrorNew ''during test always fail''), ?c)"
    by (simp add: post_condition_failure_def empty_feature_def always_fail_def engine_env_def
        empty_cluster_def)
  from C2_tracker_records_failure [of ?p empty_cluster "[]" ?f "[]" engine_env
      empty_cluster default_dsci, OF reg earlier en] steps
  have "\<exists>err c' t.
      FeaturesHandler_Apply engine_env (ClusterFeaturesHandler default_dsci ?p) empty_cluster = (Some err, c') \<and>
      trackers c' (TargetNamespace ?f, feat_Name ?f) = Some t \<and>
      tracker_Phase t = PhaseError \<and>
      (\<exists>d \<in> set (tracker_Conditions t).
         cond_Type d = ConditionDegraded \<and> cond_Status d = ConditionTrue \<and>
         cond_Reason d = PostConditions) \<and>
      resources c' = resources ?c"
    by blast
  then show "\<exists>err c' t.
      FeaturesHandler_Apply engine_env (ClusterFeaturesHandler default_dsci ?p) empty_cluster = (Some err, c') \<and>
      trackers c' (''default'', ''post-condition-failure'') = Some t \<and>
      tracker_Phase t = PhaseError \<and>
      (\<exists>d \<in> set (tracker_Conditions t).
         cond_Type d = ConditionDegraded \<and> cond_Status d = ConditionTrue \<and>
         cond_Reason d = PostConditions) \<and>
      resources c' = [''templates'']"
    by (simp add: post_condition_failure_def empty_feature_def)
qed

lemma Feature_Apply_empty_feature:
  "Feature_Apply engine_env (empty_feature name ow) empty_cluster =
     (None, upsertTracker (empty_feature name ow) None empty_cluster)"
  by (simp add: Feature_Apply_def enabled_at_def empty_feature_def)

text \<open>
  Claim C8.  After an enabled feature has been applied without error, its persisted
  tracker has a non-empty list of owner references exactly when the feature was built
  with an owner: the list holds that owner, and it is empty for a feature without
  owner.
\<close>

theorem C8_tracker_owner_references:
  assumes "enabled_at f c" and "Feature_Apply env f c = (None, c')"
  shows "\<exists>t. trackers c' (TargetNamespace f, feat_Name f) = Some t \<and>
           (OwnerReferences t \<noteq> [] \<longleftrightarrow> owner f \<noteq> None) \<and>
           (\<forall>ow. owner f = Some ow \<longrightarrow> OwnerReferences t = [ow]) \<and>
           (owner f = None \<longrightarrow> OwnerReferences t = [])"
proof -
  obtain c4 where "c' = upsertTracker f None c4"
    using assms by (rule Feature_Apply_succeeds [THEN exE])
  then show ?thesis
    by (auto simp: upsertTracker_tracker split: option.splits)
qed

text \<open>
  The instance of C8 at the two features of the integration tests, with and without an
  owner.
\<close>

theorem C8_tracker_owner_references_witness:
  "(\<exists>t. trackers (snd (Feature_Apply engine_env
            (empty_feature ''empty-feat-with-owner''
               (Some \<lparr>owner_Kind = ''DSCInitialization'', owner_Name = ''default-dsci''\<rparr>))
            empty_cluster)) (''default'', ''empty-feat-with-owner'') = Some t \<and>
        OwnerReferences t = [\<lparr>owner_Kind = ''DSCInitialization'', owner_Name = ''default-dsci''\<rparr>])
   \<and> (\<exists>t. trackers (snd (Feature_Apply engine_env (empty_feature ''empty-feat-no-owner'' None)
            empty_cluster)) (''default'', ''empty-feat-no-owner'') = Some t \<and>
        OwnerReferences t = [])"
proof (intro conjI)
  let ?ow = "\<lparr>owner_Kind = ''DSCInitialization'', owner_Name = ''default-dsci''\<rparr>"
  let ?f = "empty_feature ''empty-feat-with-owner'' (Some ?ow)"
  have en: "enabled_at ?f empty_cluster" by (simp add: enabled_at_def empty_feature_def)
  have ow: "owner ?f = Some ?ow"
    and key: "TargetNamespace ?f = ''default''" "feat_Name ?f = ''empty-feat-with-owner''"
    by (simp_all add: empty_feature_def)
  from C8_tracker_owner_references [OF en Feature_Apply_empty_feature]
  show "\<exists>t. trackers (snd (Feature_Apply engine_env ?f empty_cluster))
            (''default'', ''empty-feat-with-owner'') = Some t \<and> OwnerReferences t = [?ow]"
  proof (elim exE conjE)
    fix t
    assume t: "trackers (upsertTracker ?f None empty_cluster) (TargetNamespace ?f, feat_Name ?f) = Some t"
      and refs: "\<forall>ow. owner ?f = Some ow \<longrightarrow> OwnerReferences t = [ow]"
    from refs [rule_format, OF ow] have "OwnerReferences t = [?ow]" .
    with t show ?thesis
      by (intro exI [of _ t]) (simp only: Feature_Apply_empty_feature snd_conv key simp_thms)
  qed
next
  let ?f = "empty_feature ''empty-feat-no-owner'' None"
  have en: "enabled_at ?f empty_cluster" by (simp add: enabled_at_def empty_feature_def)
  have ow: "owner ?f = None"
    and key: "TargetNamespace ?f = ''default''" "feat_Name ?f = ''empty-feat-no-owner''"
    by (simp_all add: empty_feature_def)
  from C8_tracker_owner_references [OF en Feature_Apply_empty_feature]
  show "\<exists>t. trackers (snd (Feature_Apply engine_env ?f empty_cluster))
            (''default'', ''empty-feat-no-owner'') = Some t \<and> OwnerReferences t = []"
  proof (elim exE conjE)
    fix t
    assume t: "trackers (upsertTracker ?f None empty_cluster) (TargetNamespace ?f, feat_Name ?f) = Some t"
      and refs: "owner ?f = None \<longrightarrow> OwnerReferences t = []"
    from refs ow have "OwnerReferences t = []" by (rule mp)
    with t show ?thesis
      by (intro exI [of _ t]) (simp only: Feature_Apply_empty_feature snd_conv key simp_thms)
  qed
qed

section \<open>The capabilities of the service mesh\<close>

text \<open>
  Claim C3.  When the subscription \<open>authorino-operator\<close> does not exist,
  \<open>authorizationCapability\<close> returns, without error, a handler with reporter over the
  empty features handler whose condition has type \<open>CapabilityServiceMeshAuthorization\<close>,
  status \<open>False\<close> and reason \<open>MissingOperator\<close>.  Apply and Delete of the empty
  handler succeed and leave the cluster as it is; Apply and Delete of the handler with
  reporter succeed as well, and their one effect is that the condition is written into
  the owner's condition list.
\<close>

theorem C3_missing_operator:
  fixes r :: "('r Cluster, 'e) Reconciler_scheme"
  assumes "SubscriptionExists r ''authorino-operator'' c = Inr False"
  shows "\<exists>h. authorizationCapability r instance condition c = Inr h
     \<and> handler h = EmptyFeaturesHandler
     \<and> cond_Type (reporter h) = CapabilityServiceMeshAuthorization
     \<and> cond_Status (reporter h) = ConditionFalse
     \<and> cond_Reason (reporter h) = MissingOperatorReason
     \<and> (\<forall>c'. FeaturesHandler_Apply r (handler h) c' = (None, c')
             \<and> FeaturesHandler_Delete (handler h) c' = (None, c'))
     \<and> (\<forall>c'. HandlerWithReporter_Apply r h c' =
               (None, c'\<lparr>ownerConditions := SetStatusCondition (ownerConditions c') (reporter h)\<rparr>)
             \<and> HandlerWithReporter_Delete h c' =
               (None, c'\<lparr>ownerConditions := SetStatusCondition (ownerConditions c') (reporter h)\<rparr>))"
  using assms
  by (simp add: authorizationCapability_def NewHandlerWithReporter_def
      createCapabilityReporter_def FeaturesHandler_Apply_def FeaturesHandler_Delete_def
      HandlerWithReporter_Apply_def HandlerWithReporter_Delete_def ReportCondition_def)

text \<open>
  The instance of C3 at a reconciler on a cluster without the subscription.
\<close>

theorem C3_missing_operator_witness:
  "authorizationCapability (example_reconciler False []) default_dsci
      (example_condition CapabilityServiceMeshAuthorization ConfiguredReason
         ''Service Mesh Authorization configured'') empty_cluster =
     Inr \<lparr>handler = EmptyFeaturesHandler,
          reporter = \<lparr>cond_Type = CapabilityServiceMeshAuthorization,
                      cond_Status = ConditionFalse,
                      cond_Reason = MissingOperatorReason,
                      cond_Message = ''Authorino operator is not installed on the cluster, skipping authorization capability''\<rparr>\<rparr>
   \<and> HandlerWithReporter_Apply (example_reconciler False [])
       \<lparr>handler = EmptyFeaturesHandler,
        reporter = \<lparr>cond_Type = CapabilityServiceMeshAuthorization,
                    cond_Status = ConditionFalse,
                    cond_Reason = MissingOperatorReason,
                    cond_Message = ''Authorino operator is not installed on the cluster, skipping authorization capability''\<rparr>\<rparr>
       empty_cluster =
     (None, \<lparr>resources = [], trackers = Map.empty,
             ownerConditions =
               [\<lparr>cond_Type = CapabilityServiceMeshAuthorization,
                 cond_Status = ConditionFalse,
                 cond_Reason = MissingOperatorReason,
                 cond_Message = ''Authorino operator is not installed on the cluster, skipping authorization capability''\<rparr>]\<rparr>)"
proof -
  let ?r = "example_reconciler False []"
  let ?cond = "example_condition CapabilityServiceMeshAuthorization ConfiguredReason
         ''Service Mesh Authorization configured''"
  let ?m = "\<lparr>cond_Type = CapabilityServiceMeshAuthorization,
                      cond_Status = ConditionFalse,
                      cond_Reason = MissingOperatorReason,
                      cond_Message = ''Authorino operator is not installed on the cluster, skipping authorization capability''\<rparr>"
  have sub: "SubscriptionExists ?r ''authorino-operator'' empty_cluster = Inr False"
    by (simp add: example_reconciler_def)
  have cap: "authorizationCapability ?r default_dsci ?cond empty_cluster =
      Inr \<lparr>handler = EmptyFeaturesHandler, reporter = ?m\<rparr>"
    by (simp add: authorizationCapability_def sub NewHandlerWithReporter_def
        createCapabilityReporter_def)
  from C3_missing_operator [OF sub, of default_dsci ?cond]
  obtain h where h: "authorizationCapability ?r default_dsci ?cond empty_cluster = Inr h"
    and app: "\<forall>c'. HandlerWithReporter_Apply ?r h c' =
               (None, c'\<lparr>ownerConditions := SetStatusCondition (ownerConditions c') (reporter h)\<rparr>)
             \<and> HandlerWithReporter_Delete h c' =
               (None, c'\<lparr>ownerConditions := SetStatusCondition (ownerConditions c') (reporter h)\<rparr>)"
    by (elim exE conjE)
  from h cap have "h = \<lparr>handler = EmptyFeaturesHandler, reporter = ?m\<rparr>" by simp
  with app [rule_format, of empty_cluster] cap show ?thesis
    by (simp add: empty_cluster_def)
qed

lemma Feature_Apply_post_condition_failure:
  "Feature_Apply (example_reconciler a fs) post_condition_failure empty_cluster =
     (Some (Errorf ''post-condition-failure: postconditions''
              (Some (ErrorNew ''during test always fail''))),
      upsertTracker post_condition_failure (Some PostConditions)
        (empty_cluster\<lparr>resources := [''templates'']\<rparr>))"
proof -
  let ?f = post_condition_failure
  let ?c = "empty_cluster\<lparr>resources := [''templates'']\<rparr>"
  have en: "enabled_at ?f empty_cluster"
    by (simp add: enabled_at_def post_condition_failure_def empty_feature_def)
  have s1: "runActions (preconditions ?f) empty_cluster = (None, empty_cluster)"
    by (simp add: post_condition_failure_def empty_feature_def)
  have s2: "runActions (map (\<lambda>m. ApplyManifest (example_reconciler a fs) m (data ?f) (owner ?f))
        (Manifests ?f)) empty_cluster = (None, ?c)"
    by (simp add: post_condition_failure_def empty_feature_def example_reconciler_def
        empty_cluster_def)
  have s3: "runActions (resourceProducers ?f) ?c = (None, ?c)"
    by (simp add: post_condition_failure_def empty_feature_def)
  have s4: "runActions (postconditions ?f) ?c = (Some (ErrorNew ''during test always fail''), ?c)"
    by (simp add: post_condition_failure_def empty_feature_def always_fail_def)
  have "stageError ?f ''postconditions'' (ErrorNew ''during test always fail'') =
      Errorf ''post-condition-failure: postconditions''
        (Some (ErrorNew ''during test always fail''))"
    by (simp add: stageError_def post_condition_failure_def empty_feature_def)
  with Feature_Apply_post_fails [OF en s1 s2 s3 s4] show ?thesis by simp
qed

lemma Feature_Delete_delete_fail:
  "Feature_Delete delete_fail c =
     (Some (Errorf ''delete-fail: delete'' (Some (ErrorNew ''during test always fail''))), c)"
  by (simp add: Feature_Delete_def delete_fail_def empty_feature_def always_fail_def
      stageError_def)

lemma count_name_le_one:
  "distinct (map h xs) \<Longrightarrow> length (filter (\<lambda>g. h g = n) xs) \<le> 1"
proof (induction xs)
  case Nil
  then show ?case by simp
next
  case (Cons x xs)
  show ?case
  proof (cases "h x = n")
    case True
    with Cons.prems have "n \<notin> h ` set xs" by simp
    then have "filter (\<lambda>g. h g = n) xs = []"
      by (auto simp: filter_empty_conv)
    with True show ?thesis by simp
  next
    case False
    with Cons show ?thesis by simp
  qed
qed

lemma registry_accepts_distinct_names:
  assumes "distinct (map feat_Name (registry @ features))"
    and "\<forall>f \<in> set features. feat_Name f \<noteq> []"
  shows "FeaturesRegistry_Add features registry = Inr (registry @ features)"
proof -
  have "filter (\<lambda>f. feat_Name f = []) features = []"
    using assms(2) by (auto simp: filter_empty_conv)
  moreover have "filter (\<lambda>f. 1 < length (filter (\<lambda>g. feat_Name g = feat_Name f)
        (registry @ features))) features = []"
  proof -
    have "\<not> 1 < length (filter (\<lambda>g. feat_Name g = n) (registry @ features))" for n
      using count_name_le_one [OF assms(1), of n] by simp
    then show ?thesis by (simp add: filter_empty_conv)
  qed
  ultimately have "registryViolations registry features = []"
    by (simp add: registryViolations_def)
  then show ?thesis by (simp add: FeaturesRegistry_Add_def)
qed

lemma handler_apply_registry:
  "FeaturesHandler_Apply env (ClusterFeaturesHandler ow (\<lambda>cl registry. Inr fs)) c =
     applyFeatures env fs c"
  by (simp add: FeaturesHandler_Apply_def)

lemma handler_delete_registry:
  "FeaturesHandler_Delete (ClusterFeaturesHandler ow (\<lambda>cl registry. Inr fs)) c =
     deleteFeatures fs c"
  by (simp add: FeaturesHandler_Delete_def)

lemma deleteFeatures_stops:
  "deleteFeatures fs c = (None, c0) \<Longrightarrow> Feature_Delete f c0 = (Some e, c') \<Longrightarrow>
   deleteFeatures (fs @ f # rest) c = (Some e, c')"
  by (simp add: deleteFeatures_append)

lemma handler_apply_stops:
  assumes "provider c [] = Inr (fs @ f # rest)"
    and "FeaturesHandler_Apply env (ClusterFeaturesHandler ow (\<lambda>cl registry. Inr fs)) c = (None, c1)"
    and "Feature_Apply env f c1 = (Some e, c')"
  shows "FeaturesHandler_Apply env (ClusterFeaturesHandler ow provider) c = (Some e, c')"
proof -
  have "applyFeatures env fs c = (None, c1)"
    using assms(2) by (simp only: handler_apply_registry)
  then have "applyFeatures env (fs @ f # rest) c = (Some e, c')"
    using assms(3) by (rule applyFeatures_stops)
  then show ?thesis by (simp add: FeaturesHandler_Apply_def assms(1))
qed

lemma handler_delete_stops:
  assumes "provider c [] = Inr (fs @ f # rest)"
    and "FeaturesHandler_Delete (ClusterFeaturesHandler ow (\<lambda>cl registry. Inr fs)) c = (None, c1)"
    and "Feature_Delete f c1 = (Some e, c')"
  shows "FeaturesHandler_Delete (ClusterFeaturesHandler ow provider) c = (Some e, c')"
proof -
  have "deleteFeatures fs c = (None, c1)"
    using assms(2) by (simp only: handler_delete_registry)
  then have "deleteFeatures (fs @ f # rest) c = (Some e, c')"
    using assms(3) by (rule deleteFeatures_stops)
  then show ?thesis by (simp add: FeaturesHandler_Delete_def assms(1))
qed

lemma mesh_capability_apply_fails:
  assumes "serviceMeshCapabilityFeatures r instance c [] = Inr (fs @ f # rest)"
    and "FeaturesHandler_Apply r (ClusterFeaturesHandler instance (\<lambda>cl registry. Inr fs)) c = (None, c1)"
    and "Feature_Apply r f c1 = (Some e, c')"
  shows "HandlerWithReporter_Apply r (serviceMeshCapability r instance cond) c =
           (Some e, ReportCondition cond (Some e) c')"
  using handler_apply_stops [where provider = "serviceMeshCapabilityFeatures r instance", OF assms]
  by (simp add: HandlerWithReporter_Apply_def serviceMeshCapability_def
      NewHandlerWithReporter_def createCapabilityReporter_def)

lemma mesh_capability_delete_fails:
  assumes "serviceMeshCapabilityFeatures r instance c [] = Inr (fs @ f # rest)"
    and "FeaturesHandler_Delete (ClusterFeaturesHandler instance (\<lambda>cl registry. Inr fs)) c = (None, c1)"
    and "Feature_Delete f c1 = (Some e, c')"
  shows "HandlerWithReporter_Delete (serviceMeshCapability r instance cond) c =
           (Some e, ReportCondition cond (Some e) c')"
  using handler_delete_stops [where provider = "serviceMeshCapabilityFeatures r instance", OF assms]
  by (simp add: HandlerWithReporter_Delete_def serviceMeshCapability_def
      NewHandlerWithReporter_def createCapabilityReporter_def)

lemma configure_managed:
  assumes "ServiceMesh (Spec instance) = Some sm" and "ManagementState sm = ''Managed''"
    and "authorizationCapability r instance
           (authorizationCondition r ConfiguredReason ''Service Mesh Authorization configured'') c
         = Inr authz"
  shows "configureServiceMesh r instance c =
     (case HandlerWithReporter_Apply r
             (serviceMeshCapability r instance
                (serviceMeshCondition r ConfiguredReason ''Service Mesh configured'')) c of
        (Some e, c1) \<Rightarrow> (Some e, c1)
      | (None, c1) \<Rightarrow> HandlerWithReporter_Apply r authz c1)"
  using assms
  by (auto simp: configureServiceMesh_def split: prod.splits option.splits)

lemma remove_managed:
  assumes "ServiceMesh (Spec instance) = Some sm" and "ManagementState sm = ''Managed''"
    and "authorizationCapability r instance
           (authorizationCondition r RemovedReason ''Service Mesh Authorization removed'') c
         = Inr authz"
  shows "removeServiceMesh r instance c =
     (case HandlerWithReporter_Delete
             (serviceMeshCapability r instance
                (serviceMeshCondition r RemovedReason ''Service Mesh removed'')) c of
        (Some e, c1) \<Rightarrow> (Some e, c1)
      | (None, c1) \<Rightarrow> HandlerWithReporter_Delete authz c1)"
  using assms
  by (auto simp: removeServiceMesh_def split: prod.splits option.splits)

text \<open>
  Claim C4.  With management state \<open>Managed\<close> and the authorization capability
  constructed, \<open>configureServiceMesh\<close> applies the mesh capability first: if that
  Apply returns an error, the function returns this error and the cluster that Apply
  left, whatever the authorization capability is; otherwise its result is the result of
  applying the authorization capability to the cluster the mesh capability left.
  \<open>removeServiceMesh\<close> does the same with Delete.  A capability's Apply (Delete)
  returns the error of its features handler as it is and reports the condition.  The
  handler of the mesh capability is the features handler over the mesh features, and a
  features handler applies (deletes) the features of its registry in order: with an
  empty registry it succeeds, with the registry \<open>f # fs\<close> it returns the error of
  \<open>f\<close> and the cluster \<open>f\<close> left when \<open>f\<close> fails, and otherwise goes on
  with \<open>fs\<close> on the cluster \<open>f\<close> left; an error of the provider is returned
  before any feature.  So when the features before \<open>f\<close> in the registry succeed and
  \<open>f\<close> fails, the handler returns the error of \<open>f\<close> whatever follows \<open>f\<close>,
  and \<open>configureServiceMesh\<close> (\<open>removeServiceMesh\<close>) returns this same error,
  the cluster being the one \<open>f\<close> left with the failed condition reported.  The
  registry holds the features in the order of registration: a batch of features with
  distinct non-empty names is appended to the registry as it is.
\<close>

theorem C4_capabilities_in_order:
  fixes r :: "('r Cluster, 'e) Reconciler_scheme" and dsci :: DSCInitialization
    and c :: "'r Cluster"
  defines "meshA \<equiv> serviceMeshCapability r dsci
                      (serviceMeshCondition r ConfiguredReason ''Service Mesh configured'')"
    and "meshD \<equiv> serviceMeshCapability r dsci
                    (serviceMeshCondition r RemovedReason ''Service Mesh removed'')"
    and "authzA \<equiv> authorizationCapability r dsci
                     (authorizationCondition r ConfiguredReason
                        ''Service Mesh Authorization configured'') c"
    and "authzD \<equiv> authorizationCapability r dsci
                     (authorizationCondition r RemovedReason
                        ''Service Mesh Authorization removed'') c"
  assumes mesh: "ServiceMesh (Spec dsci) = Some sm"
    and managed: "ManagementState sm = ''Managed''"
  shows "(\<forall>authz fs f rest c1 e c'.
            authzA = Inr authz \<and>
            serviceMeshCapabilityFeatures r dsci c [] = Inr (fs @ f # rest) \<and>
            FeaturesHandler_Apply r (ClusterFeaturesHandler dsci (\<lambda>cl registry. Inr fs)) c
              = (None, c1) \<and>
            Feature_Apply r f c1 = (Some e, c') \<longrightarrow>
            configureServiceMesh r dsci c =
              (Some e, ReportCondition
                         (serviceMeshCondition r ConfiguredReason ''Service Mesh configured'')
                         (Some e) c'))
       \<and> (\<forall>authz fs f rest c1 e c'.
            authzD = Inr authz \<and>
            serviceMeshCapabilityFeatures r dsci c [] = Inr (fs @ f # rest) \<and>
            FeaturesHandler_Delete (ClusterFeaturesHandler dsci (\<lambda>cl registry. Inr fs)) c
              = (None, c1) \<and>
            Feature_Delete f c1 = (Some e, c') \<longrightarrow>
            removeServiceMesh r dsci c =
              (Some e, ReportCondition
                         (serviceMeshCondition r RemovedReason ''Service Mesh removed'')
                         (Some e) c'))
       \<and> (\<forall>authz. authzA = Inr authz \<longrightarrow>
            (\<forall>e c1. HandlerWithReporter_Apply r meshA c = (Some e, c1) \<longrightarrow>
               configureServiceMesh r dsci c = (Some e, c1)) \<and>
            (\<forall>c1. HandlerWithReporter_Apply r meshA c = (None, c1) \<longrightarrow>
               configureServiceMesh r dsci c = HandlerWithReporter_Apply r authz c1))
       \<and> (\<forall>authz. authzD = Inr authz \<longrightarrow>
            (\<forall>e c1. HandlerWithReporter_Delete meshD c = (Some e, c1) \<longrightarrow>
               removeServiceMesh r dsci c = (Some e, c1)) \<and>
            (\<forall>c1. HandlerWithReporter_Delete meshD c = (None, c1) \<longrightarrow>
               removeServiceMesh r dsci c = HandlerWithReporter_Delete authz c1))
       \<and> handler meshA = ClusterFeaturesHandler dsci (serviceMeshCapabilityFeatures r dsci)
       \<and> handler meshD = ClusterFeaturesHandler dsci (serviceMeshCapabilityFeatures r dsci)
       \<and> (\<forall>(h :: 'r Cluster HandlerWithReporter) c0.
            HandlerWithReporter_Apply r h c0 =
              (fst (FeaturesHandler_Apply r (handler h) c0),
               ReportCondition (reporter h) (fst (FeaturesHandler_Apply r (handler h) c0))
                 (snd (FeaturesHandler_Apply r (handler h) c0))) \<and>
            HandlerWithReporter_Delete h c0 =
              (fst (FeaturesHandler_Delete (handler h) c0),
               ReportCondition (reporter h) (fst (FeaturesHandler_Delete (handler h) c0))
                 (snd (FeaturesHandler_Delete (handler h) c0))))
       \<and> (\<forall>ow (provider :: 'r Cluster FeaturesProvider) c0.
            (\<forall>e. provider c0 [] = Inl e \<longrightarrow>
               FeaturesHandler_Apply r (ClusterFeaturesHandler ow provider) c0 = (Some e, c0)) \<and>
            (provider c0 [] = Inr [] \<longrightarrow>
               FeaturesHandler_Apply r (ClusterFeaturesHandler ow provider) c0 = (None, c0)) \<and>
            (\<forall>f fs e c'. provider c0 [] = Inr (f # fs) \<and> Feature_Apply r f c0 = (Some e, c') \<longrightarrow>
               FeaturesHandler_Apply r (ClusterFeaturesHandler ow provider) c0 = (Some e, c')) \<and>
            (\<forall>f fs c'. provider c0 [] = Inr (f # fs) \<and> Feature_Apply r f c0 = (None, c') \<longrightarrow>
               FeaturesHandler_Apply r (ClusterFeaturesHandler ow provider) c0 =
                 FeaturesHandler_Apply r (ClusterFeaturesHandler ow (\<lambda>cl registry. Inr fs)) c'))
       \<and> (\<forall>ow (provider :: 'r Cluster FeaturesProvider) c0.
            (\<forall>e. provider c0 [] = Inl e \<longrightarrow>
               FeaturesHandler_Delete (ClusterFeaturesHandler ow provider) c0 = (Some e, c0)) \<and>
            (provider c0 [] = Inr [] \<longrightarrow>
               FeaturesHandler_Delete (ClusterFeaturesHandler ow provider) c0 = (None, c0)) \<and>
            (\<forall>f fs e c'. provider c0 [] = Inr (f # fs) \<and> Feature_Delete f c0 = (Some e, c') \<longrightarrow>
               FeaturesHandler_Delete (ClusterFeaturesHandler ow provider) c0 = (Some e, c')) \<and>
            (\<forall>f fs c'. provider c0 [] = Inr (f # fs) \<and> Feature_Delete f c0 = (None, c') \<longrightarrow>
               FeaturesHandler_Delete (ClusterFeaturesHandler ow provider) c0 =
                 FeaturesHandler_Delete (ClusterFeaturesHandler ow (\<lambda>cl registry. Inr fs)) c'))
       \<and> (\<forall>ow (provider :: 'r Cluster FeaturesProvider) c0 fs f rest c1 e c'.
            provider c0 [] = Inr (fs @ f # rest) \<and>
            FeaturesHandler_Apply r (ClusterFeaturesHandler ow (\<lambda>cl registry. Inr fs)) c0
              = (None, c1) \<and>
            Feature_Apply r f c1 = (Some e, c') \<longrightarrow>
            FeaturesHandler_Apply r (ClusterFeaturesHandler ow provider) c0 = (Some e, c'))
       \<and> (\<forall>ow (provider :: 'r Cluster FeaturesProvider) c0 fs f rest c1 e c'.
            provider c0 [] = Inr (fs @ f # rest) \<and>
            FeaturesHandler_Delete (ClusterFeaturesHandler ow (\<lambda>cl registry. Inr fs)) c0
              = (None, c1) \<and>
            Feature_Delete f c1 = (Some e, c') \<longrightarrow>
            FeaturesHandler_Delete (ClusterFeaturesHandler ow provider) c0 = (Some e, c'))
       \<and> (\<forall>(features :: 'r Cluster Feature list) registry.
            distinct (map feat_Name (registry @ features)) \<and>
            (\<forall>f \<in> set features. feat_Name f \<noteq> []) \<longrightarrow>
            FeaturesRegistry_Add features registry = Inr (registry @ features))"
proof (intro conjI)
  show "\<forall>authz fs f rest c1 e c'.
            authzA = Inr authz \<and>
            serviceMeshCapabilityFeatures r dsci c [] = Inr (fs @ f # rest) \<and>
            FeaturesHandler_Apply r (ClusterFeaturesHandler dsci (\<lambda>cl registry. Inr fs)) c
              = (None, c1) \<and>
            Feature_Apply r f c1 = (Some e, c') \<longrightarrow>
            configureServiceMesh r dsci c =
              (Some e, ReportCondition
                         (serviceMeshCondition r ConfiguredReason ''Service Mesh configured'')
                         (Some e) c')"
  proof (intro allI impI, elim conjE)
    fix authz fs f rest c1 e c'
    assume a: "authzA = Inr authz"
      and p: "serviceMeshCapabilityFeatures r dsci c [] = Inr (fs @ f # rest)"
      and h: "FeaturesHandler_Apply r (ClusterFeaturesHandler dsci (\<lambda>cl registry. Inr fs)) c
              = (None, c1)"
      and f: "Feature_Apply r f c1 = (Some e, c')"
    have "configureServiceMesh r dsci c =
        (case HandlerWithReporter_Apply r
             (serviceMeshCapability r dsci
                (serviceMeshCondition r ConfiguredReason ''Service Mesh configured'')) c of
           (Some e, c1) \<Rightarrow> (Some e, c1)
         | (None, c1) \<Rightarrow> HandlerWithReporter_Apply r authz c1)"
      using mesh managed a [unfolded authzA_def] by (rule configure_managed)
    then show "configureServiceMesh r dsci c =
              (Some e, ReportCondition
                         (serviceMeshCondition r ConfiguredReason ''Service Mesh configured'')
                         (Some e) c')"
      by (simp add: mesh_capability_apply_fails [OF p h f])
  qed
  show "\<forall>authz fs f rest c1 e c'.
            authzD = Inr authz \<and>
            serviceMeshCapabilityFeatures r dsci c [] = Inr (fs @ f # rest) \<and>
            FeaturesHandler_Delete (ClusterFeaturesHandler dsci (\<lambda>cl registry. Inr fs)) c
              = (None, c1) \<and>
            Feature_Delete f c1 = (Some e, c') \<longrightarrow>
            removeServiceMesh r dsci c =
              (Some e, ReportCondition
                         (serviceMeshCondition r RemovedReason ''Service Mesh removed'')
                         (Some e) c')"
  proof (intro allI impI, elim conjE)
    fix authz fs f rest c1 e c'
    assume a: "authzD = Inr authz"
      and p: "serviceMeshCapabilityFeatures r dsci c [] = Inr (fs @ f # rest)"
      and h: "FeaturesHandler_Delete (ClusterFeaturesHandler dsci (\<lambda>cl registry. Inr fs)) c
              = (None, c1)"
      and f: "Feature_Delete f c1 = (Some e, c')"
    have "removeServiceMesh r dsci c =
        (case HandlerWithReporter_Delete
             (serviceMeshCapability r dsci
                (serviceMeshCondition r RemovedReason ''Service Mesh removed'')) c of
           (Some e, c1) \<Rightarrow> (Some e, c1)
         | (None, c1) \<Rightarrow> HandlerWithReporter_Delete authz c1)"
      using mesh managed a [unfolded authzD_def] by (rule remove_managed)
    then show "removeServiceMesh r dsci c =
              (Some e, ReportCondition
                         (serviceMeshCondition r RemovedReason ''Service Mesh removed'')
                         (Some e) c')"
      by (simp add: mesh_capability_delete_fails [OF p h f])
  qed
  show "\<forall>authz. authzA = Inr authz \<longrightarrow>
            (\<forall>e c1. HandlerWithReporter_Apply r meshA c = (Some e, c1) \<longrightarrow>
               configureServiceMesh r dsci c = (Some e, c1)) \<and>
            (\<forall>c1. HandlerWithReporter_Apply r meshA c = (None, c1) \<longrightarrow>
               configureServiceMesh r dsci c = HandlerWithReporter_Apply r authz c1)"
  proof (intro allI impI)
    fix authz assume a: "authzA = Inr authz"
    have "configureServiceMesh r dsci c =
        (case HandlerWithReporter_Apply r meshA c of
           (Some e, c1) \<Rightarrow> (Some e, c1)
         | (None, c1) \<Rightarrow> HandlerWithReporter_Apply r authz c1)"
      unfolding meshA_def
      using mesh managed a [unfolded authzA_def] by (rule configure_managed)
    then show "(\<forall>e c1. HandlerWithReporter_Apply r meshA c = (Some e, c1) \<longrightarrow>
               configureServiceMesh r dsci c = (Some e, c1)) \<and>
            (\<forall>c1. HandlerWithReporter_Apply r meshA c = (None, c1) \<longrightarrow>
               configureServiceMesh r dsci c = HandlerWithReporter_Apply r authz c1)"
      by simp
  qed
  show "\<forall>authz. authzD = Inr authz \<longrightarrow>
            (\<forall>e c1. HandlerWithReporter_Delete meshD c = (Some e, c1) \<longrightarrow>
               removeServiceMesh r dsci c = (Some e, c1)) \<and>
            (\<forall>c1. HandlerWithReporter_Delete meshD c = (None, c1) \<longrightarrow>
               removeServiceMesh r dsci c = HandlerWithReporter_Delete authz c1)"
  proof (intro allI impI)
    fix authz assume a: "authzD = Inr authz"
    have "removeServiceMesh r dsci c =
        (case HandlerWithReporter_Delete meshD c of
           (Some e, c1) \<Rightarrow> (Some e, c1)
         | (None, c1) \<Rightarrow> HandlerWithReporter_Delete authz c1)"
      unfolding meshD_def
      using mesh managed a [unfolded authzD_def] by (rule remove_managed)
    then show "(\<forall>e c1. HandlerWithReporter_Delete meshD c = (Some e, c1) \<longrightarrow>
               removeServiceMesh r dsci c = (Some e, c1)) \<and>
            (\<forall>c1. HandlerWithReporter_Delete meshD c = (None, c1) \<longrightarrow>
               removeServiceMesh r dsci c = HandlerWithReporter_Delete authz c1)"
      by simp
  qed
  show "handler meshA = ClusterFeaturesHandler dsci (serviceMeshCapabilityFeatures r dsci)"
    by (simp add: meshA_def serviceMeshCapability_def NewHandlerWithReporter_def)
  show "handler meshD = ClusterFeaturesHandler dsci (serviceMeshCapabilityFeatures r dsci)"
    by (simp add: meshD_def serviceMeshCapability_def NewHandlerWithReporter_def)
  show "\<forall>(h :: 'r Cluster HandlerWithReporter) c0.
            HandlerWithReporter_Apply r h c0 =
              (fst (FeaturesHandler_Apply r (handler h) c0),
               ReportCondition (reporter h) (fst (FeaturesHandler_Apply r (handler h) c0))
                 (snd (FeaturesHandler_Apply r (handler h) c0))) \<and>
            HandlerWithReporter_Delete h c0 =
              (fst (FeaturesHandler_Delete (handler h) c0),
               ReportCondition (reporter h) (fst (FeaturesHandler_Delete (handler h) c0))
                 (snd (FeaturesHandler_Delete (handler h) c0)))"
    by (simp add: HandlerWithReporter_Apply_def HandlerWithReporter_Delete_def case_prod_beta)
  show "\<forall>ow (provider :: 'r Cluster FeaturesProvider) c0.
            (\<forall>e. provider c0 [] = Inl e \<longrightarrow>
               FeaturesHandler_Apply r (ClusterFeaturesHandler ow provider) c0 = (Some e, c0)) \<and>
            (provider c0 [] = Inr [] \<longrightarrow>
               FeaturesHandler_Apply r (ClusterFeaturesHandler ow provider) c0 = (None, c0)) \<and>
            (\<forall>f fs e c'. provider c0 [] = Inr (f # fs) \<and> Feature_Apply r f c0 = (Some e, c') \<longrightarrow>
               FeaturesHandler_Apply r (ClusterFeaturesHandler ow provider) c0 = (Some e, c')) \<and>
            (\<forall>f fs c'. provider c0 [] = Inr (f # fs) \<and> Feature_Apply r f c0 = (None, c') \<longrightarrow>
               FeaturesHandler_Apply r (ClusterFeaturesHandler ow provider) c0 =
                 FeaturesHandler_Apply r (ClusterFeaturesHandler ow (\<lambda>cl registry. Inr fs)) c')"
    by (simp add: FeaturesHandler_Apply_def)
  show "\<forall>ow (provider :: 'r Cluster FeaturesProvider) c0.
            (\<forall>e. provider c0 [] = Inl e \<longrightarrow>
               FeaturesHandler_Delete (ClusterFeaturesHandler ow provider) c0 = (Some e, c0)) \<and>
            (provider c0 [] = Inr [] \<longrightarrow>
               FeaturesHandler_Delete (ClusterFeaturesHandler ow provider) c0 = (None, c0)) \<and>
            (\<forall>f fs e c'. provider c0 [] = Inr (f # fs) \<and> Feature_Delete f c0 = (Some e, c') \<longrightarrow>
               FeaturesHandler_Delete (ClusterFeaturesHandler ow provider) c0 = (Some e, c')) \<and>
            (\<forall>f fs c'. provider c0 [] = Inr (f # fs) \<and> Feature_Delete f c0 = (None, c') \<longrightarrow>
               FeaturesHandler_Delete (ClusterFeaturesHandler ow provider) c0 =
                 FeaturesHandler_Delete (ClusterFeaturesHandler ow (\<lambda>cl registry. Inr fs)) c')"
    by (simp add: FeaturesHandler_Delete_def)
  show "\<forall>ow (provider :: 'r Cluster FeaturesProvider) c0 fs f rest c1 e c'.
            provider c0 [] = Inr (fs @ f # rest) \<and>
            FeaturesHandler_Apply r (ClusterFeaturesHandler ow (\<lambda>cl registry. Inr fs)) c0
              = (None, c1) \<and>
            Feature_Apply r f c1 = (Some e, c') \<longrightarrow>
            FeaturesHandler_Apply r (ClusterFeaturesHandler ow provider) c0 = (Some e, c')"
  proof (intro allI impI, elim conjE)
    fix ow and provider :: "'r Cluster FeaturesProvider" and c0 fs f rest c1 e c'
    assume "provider c0 [] = Inr (fs @ f # rest)"
      and "FeaturesHandler_Apply r (ClusterFeaturesHandler ow (\<lambda>cl registry. Inr fs)) c0
              = (None, c1)"
      and "Feature_Apply r f c1 = (Some e, c')"
    then show "FeaturesHandler_Apply r (ClusterFeaturesHandler ow provider) c0 = (Some e, c')"
      by (rule handler_apply_stops)
  qed
  show "\<forall>ow (provider :: 'r Cluster FeaturesProvider) c0 fs f rest c1 e c'.
            provider c0 [] = Inr (fs @ f # rest) \<and>
            FeaturesHandler_Delete (ClusterFeaturesHandler ow (\<lambda>cl registry. Inr fs)) c0
              = (None, c1) \<and>
            Feature_Delete f c1 = (Some e, c') \<longrightarrow>
            FeaturesHandler_Delete (ClusterFeaturesHandler ow provider) c0 = (Some e, c')"
  proof (intro allI impI, elim conjE)
    fix ow and provider :: "'r Cluster FeaturesProvider" and c0 fs f rest c1 e c'
    assume "provider c0 [] = Inr (fs @ f # rest)"
      and "FeaturesHandler_Delete (ClusterFeaturesHandler ow (\<lambda>cl registry. Inr fs)) c0
              = (None, c1)"
      and "Feature_Delete f c1 = (Some e, c')"
    then show "FeaturesHandler_Delete (ClusterFeaturesHandler ow provider) c0 = (Some e, c')"
      by (rule handler_delete_stops)
  qed
  show "\<forall>(features :: 'r Cluster Feature list) registry.
            distinct (map feat_Name (registry @ features)) \<and>
            (\<forall>f \<in> set features. feat_Name f \<noteq> []) \<longrightarrow>
            FeaturesRegistry_Add features registry = Inr (registry @ features)"
    by (intro allI impI, elim conjE) (rule registry_accepts_distinct_names)
qed

lemma default_dsci_managed:
  "ServiceMesh (Spec default_dsci) =
      Some \<lparr>ManagementState = ''Managed'',
            sm_ControlPlane = \<lparr>cp_Name = ''data-science-smcp'', cp_Namespace = ''istio-system'',
                               MetricsCollection = ''Istio''\<rparr>\<rparr>"
  by (simp add: default_dsci_def)

lemma example_reconciler_registry:
  "distinct (map feat_Name fs) \<Longrightarrow> \<forall>f \<in> set fs. feat_Name f \<noteq> [] \<Longrightarrow>
   serviceMeshCapabilityFeatures (example_reconciler a fs) dsci c [] = Inr ([] @ fs)"
  by (simp add: example_reconciler_def registry_accepts_distinct_names)

lemma example_reconciler_authz:
  "\<exists>authz. authorizationCapability (example_reconciler True fs) dsci cond c = Inr authz"
  by (simp add: authorizationCapability_def example_reconciler_def)

text \<open>
  The instance of C4 at a reconciler whose mesh capability registers a failing feature
  and then the feature \<open>tracking\<close>.  Applying, with a feature whose postcondition
  fails: the pass returns the error of that feature, no tracker exists for
  \<open>tracking\<close> or for the feature of the authorization capability, and the only
  condition reported on the owner is the failed mesh capability.  Deleting, with a
  feature whose clean-up fails, on a cluster that holds the trackers of \<open>tracking\<close>
  and of the authorization feature: the pass returns the error of that feature, both
  trackers are still there, and the only condition reported is the failed mesh
  capability.
\<close>

theorem C4_capabilities_in_order_witness:
  "fst (configureServiceMesh
          (example_reconciler True [post_condition_failure, empty_feature ''tracking'' None])
          default_dsci empty_cluster) =
     Some (Errorf ''post-condition-failure: postconditions''
             (Some (ErrorNew ''during test always fail'')))
   \<and> resources (snd (configureServiceMesh
          (example_reconciler True [post_condition_failure, empty_feature ''tracking'' None])
          default_dsci empty_cluster)) = [''templates'']
   \<and> trackers (snd (configureServiceMesh
          (example_reconciler True [post_condition_failure, empty_feature ''tracking'' None])
          default_dsci empty_cluster)) (''default'', ''tracking'') = None
   \<and> trackers (snd (configureServiceMesh
          (example_reconciler True [post_condition_failure, empty_feature ''tracking'' None])
          default_dsci empty_cluster)) (''default'', ''authz'') = None
   \<and> map (\<lambda>d. (cond_Type d, cond_Status d)) (ownerConditions (snd (configureServiceMesh
          (example_reconciler True [post_condition_failure, empty_feature ''tracking'' None])
          default_dsci empty_cluster))) = [(CapabilityServiceMesh, ConditionFalse)]
   \<and> fst (removeServiceMesh
          (example_reconciler True [delete_fail, empty_feature ''tracking'' None])
          default_dsci tracked_cluster) =
     Some (Errorf ''delete-fail: delete'' (Some (ErrorNew ''during test always fail'')))
   \<and> map_option tracker_Phase (trackers (snd (removeServiceMesh
          (example_reconciler True [delete_fail, empty_feature ''tracking'' None])
          default_dsci tracked_cluster)) (''default'', ''tracking'')) = Some PhaseReady
   \<and> map_option tracker_Phase (trackers (snd (removeServiceMesh
          (example_reconciler True [delete_fail, empty_feature ''tracking'' None])
          default_dsci tracked_cluster)) (''default'', ''authz'')) = Some PhaseReady
   \<and> map (\<lambda>d. (cond_Type d, cond_Status d)) (ownerConditions (snd (removeServiceMesh
          (example_reconciler True [delete_fail, empty_feature ''tracking'' None])
          default_dsci tracked_cluster))) = [(CapabilityServiceMesh, ConditionFalse)]"
proof -
  let ?ra = "example_reconciler True [post_condition_failure, empty_feature ''tracking'' None]"
  let ?rd = "example_reconciler True [delete_fail, empty_feature ''tracking'' None]"
  let ?E = "Errorf ''post-condition-failure: postconditions''
             (Some (ErrorNew ''during test always fail''))"
  let ?D = "Errorf ''delete-fail: delete'' (Some (ErrorNew ''during test always fail''))"
  let ?T = "upsertTracker post_condition_failure (Some PostConditions)
        (empty_cluster\<lparr>resources := [''templates'']\<rparr>)"
  have managed: "ManagementState \<lparr>ManagementState = ''Managed'',
            sm_ControlPlane = \<lparr>cp_Name = ''data-science-smcp'', cp_Namespace = ''istio-system'',
                               MetricsCollection = ''Istio''\<rparr>\<rparr> = ''Managed''"
    by simp
  obtain authzA where authzA: "authorizationCapability ?ra default_dsci
      (authorizationCondition ?ra ConfiguredReason ''Service Mesh Authorization configured'')
      empty_cluster = Inr authzA"
    using example_reconciler_authz by (rule exE)
  have regA: "serviceMeshCapabilityFeatures ?ra default_dsci empty_cluster [] =
      Inr ([] @ post_condition_failure # [empty_feature ''tracking'' None])"
    using example_reconciler_registry
      [of "[post_condition_failure, empty_feature ''tracking'' None]" True default_dsci empty_cluster]
    by (simp add: post_condition_failure_def empty_feature_def)
  have preA: "FeaturesHandler_Apply ?ra
      (ClusterFeaturesHandler default_dsci (\<lambda>cl registry. Inr [])) empty_cluster =
      (None, empty_cluster)"
    by (simp add: FeaturesHandler_Apply_def)
  have failA: "Feature_Apply ?ra post_condition_failure empty_cluster = (Some ?E, ?T)"
    by (rule Feature_Apply_post_condition_failure)
  have resA: "configureServiceMesh ?ra default_dsci empty_cluster =
      (Some ?E, ReportCondition
                  (serviceMeshCondition ?ra ConfiguredReason ''Service Mesh configured'')
                  (Some ?E) ?T)"
    using C4_capabilities_in_order [OF default_dsci_managed managed, of ?ra empty_cluster,
        THEN conjunct1, rule_format, of authzA "[]" post_condition_failure
        "[empty_feature ''tracking'' None]" empty_cluster ?E ?T]
      authzA regA preA failA
    by simp
  obtain authzD where authzD: "authorizationCapability ?rd default_dsci
      (authorizationCondition ?rd RemovedReason ''Service Mesh Authorization removed'')
      tracked_cluster = Inr authzD"
    using example_reconciler_authz by (rule exE)
  have regD: "serviceMeshCapabilityFeatures ?rd default_dsci tracked_cluster [] =
      Inr ([] @ delete_fail # [empty_feature ''tracking'' None])"
    using example_reconciler_registry
      [of "[delete_fail, empty_feature ''tracking'' None]" True default_dsci tracked_cluster]
    by (simp add: delete_fail_def empty_feature_def)
  have preD: "FeaturesHandler_Delete
      (ClusterFeaturesHandler default_dsci (\<lambda>cl registry. Inr [])) tracked_cluster =
      (None, tracked_cluster)"
    by (simp add: FeaturesHandler_Delete_def)
  have failD: "Feature_Delete delete_fail tracked_cluster = (Some ?D, tracked_cluster)"
    by (rule Feature_Delete_delete_fail)
  have resD: "removeServiceMesh ?rd default_dsci tracked_cluster =
      (Some ?D, ReportCondition
                  (serviceMeshCondition ?rd RemovedReason ''Service Mesh removed'')
                  (Some ?D) tracked_cluster)"
    using C4_capabilities_in_order [OF default_dsci_managed managed, of ?rd tracked_cluster,
        THEN conjunct2, THEN conjunct1, rule_format, of authzD "[]" delete_fail
        "[empty_feature ''tracking'' None]" tracked_cluster ?D tracked_cluster]
      authzD regD preD failD
    by simp
  show ?thesis
    unfolding resA resD
    by (simp add: ReportCondition_def upsertTracker_def empty_cluster_def tracked_cluster_def
        example_tracker_def post_condition_failure_def empty_feature_def
        example_reconciler_def example_condition_def)
qed

end
